theory Spec2Isabelle
  imports Main "HOL-Library.Word"
begin

section \<open>Data model\<close>

text \<open>
  Go strings are byte strings (\<open>string\<close>), Go \<open>int\<close> is modelled by \<open>int\<close> (the
  only integers computed are counts bounded by a slice length), \<open>int32\<close> replica counts
  are 32-bit words, and instants and durations are nanosecond counts.
\<close>

type_synonym int32 = "32 word"
type_synonym time = int
type_synonym duration = int
type_synonym annotations = "string \<rightharpoonup> string"

text \<open>Indexing a Go map with a missing key yields the zero value, the empty string.\<close>

definition lookup :: "annotations \<Rightarrow> string \<Rightarrow> string" where
  "lookup m k = (case m k of None \<Rightarrow> [] | Some v \<Rightarrow> v)"

definition Minute :: duration where
  "Minute = 60000000000"

definition Second :: duration where
  "Second = 1000000000"

definition Millisecond :: duration where
  "Millisecond = 1000000"

subsection \<open>precheck\_handler.go: the report\<close>

record PrecheckResult =
  pr_Name :: string
  pr_Status :: string
  pr_Message :: string
  pr_Details :: string
  pr_Timestamp :: time
  pr_Duration :: string
  pr_Remediation :: string

record PrecheckSummary =
  Total :: int
  Passed :: int
  Warnings :: int
  Failed :: int
  CanProceed :: bool

record PrecheckResults =
  Results :: "PrecheckResult list"
  Summary :: PrecheckSummary
  Timestamp :: time
  ClusterRef :: string

subsection \<open>The cluster object and the state store\<close>

record Condition =
  cond_Type :: string
  cond_Status :: string
  cond_Reason :: string
  cond_Message :: string
  cond_LastTransitionTime :: time

record ClusterStatus =
  CurrentImage :: string
  UpgradePaused :: bool
  UpgradeState :: string
  LastUpgradeTime :: "time option"
  Conditions :: "Condition list"

text \<open>
  Modelled from the spec: the types \<open>marklogicv1.MarklogicCluster\<close> and
  \<open>marklogicv1.MarklogicGroups\<close> are declared in \<open>api/v1\<close>, which is not among
  the sources. The fields below are the ones the handlers read and write; a member group
  is \<open>{name, desiredReplicas}\<close> as in the spec's cluster snapshot, so the pointer
  \<open>group.Replicas\<close> that the code dereferences is taken to be set.
\<close>

record MarklogicGroups =
  grp_Name :: string
  grp_Replicas :: int32

record MarklogicCluster =
  cl_Name :: string
  cl_Namespace :: string
  cl_CreationTimestamp :: time
  cl_Annotations :: annotations
  spec_Image :: string
  spec_MarkLogicGroups :: "MarklogicGroups list"
  cl_Status :: ClusterStatus

datatype EventType = EventTypeNormal | EventTypeWarning

record Event =
  ev_Type :: EventType
  ev_Reason :: string
  ev_Message :: string

record CtrlResult =
  Requeue :: bool
  RequeueAfter :: duration

definition NoRequeue :: CtrlResult where
  "NoRequeue = \<lparr>Requeue = False, RequeueAfter = 0\<rparr>"

subsection \<open>Upgrade states and annotation keys\<close>

abbreviation UpgradeStateIdle :: string where "UpgradeStateIdle \<equiv> ''Idle''"
abbreviation UpgradeStatePrecheckStart :: string where "UpgradeStatePrecheckStart \<equiv> ''PrecheckStarted''"
abbreviation UpgradeStatePrecheckDone :: string where "UpgradeStatePrecheckDone \<equiv> ''PrecheckCompleted''"
abbreviation UpgradeStateWaitingUser :: string where "UpgradeStateWaitingUser \<equiv> ''WaitingForUserApproval''"
abbreviation UpgradeStateInProgress :: string where "UpgradeStateInProgress \<equiv> ''UpgradeInProgress''"
abbreviation UpgradeStateCompleted :: string where "UpgradeStateCompleted \<equiv> ''UpgradeCompleted''"
abbreviation UpgradeStateFailed :: string where "UpgradeStateFailed \<equiv> ''UpgradeFailed''"
abbreviation UpgradeStateCancelled :: string where "UpgradeStateCancelled \<equiv> ''UpgradeCancelled''"
abbreviation UpgradeStatePaused :: string where "UpgradeStatePaused \<equiv> ''UpgradePaused''"

abbreviation AnnotationTriggerUpgrade :: string where
  "AnnotationTriggerUpgrade \<equiv> ''marklogic.com/trigger-upgrade''"
abbreviation AnnotationProceedUpgrade :: string where
  "AnnotationProceedUpgrade \<equiv> ''marklogic.com/proceed-with-upgrade''"
abbreviation AnnotationCancelUpgrade :: string where
  "AnnotationCancelUpgrade \<equiv> ''marklogic.com/cancel-upgrade''"
abbreviation AnnotationUpgradeState :: string where
  "AnnotationUpgradeState \<equiv> ''marklogic.com/upgrade-state''"
abbreviation AnnotationPrecheckResults :: string where
  "AnnotationPrecheckResults \<equiv> ''marklogic.com/precheck-results''"
abbreviation AnnotationSkipForestCheck :: string where
  "AnnotationSkipForestCheck \<equiv> ''marklogic.com/skip-forest-check''"

section \<open>Precheck runner (precheck\_handler.go)\<close>

text \<open>
  The summary loop of \<open>generateMockPrecheckResults\<close>: one pass over the results,
  counting by status; a status that is none of the three is counted nowhere.
\<close>

fun countStatuses :: "PrecheckResult list \<Rightarrow> int \<times> int \<times> int \<Rightarrow> int \<times> int \<times> int" where
  "countStatuses [] acc = acc"
| "countStatuses (r # rs) (passed, warnings, failed) =
     countStatuses rs
       (if pr_Status r = ''PASS'' then (passed + 1, warnings, failed)
        else if pr_Status r = ''WARN'' then (passed, warnings + 1, failed)
        else if pr_Status r = ''FAIL'' then (passed, warnings, failed + 1)
        else (passed, warnings, failed))"

definition calculateSummary :: "PrecheckResult list \<Rightarrow> PrecheckSummary" where
  "calculateSummary results =
     (case countStatuses results (0, 0, 0) of
        (passed, warnings, failed) \<Rightarrow>
          \<lparr>Total = int (length results), Passed = passed, Warnings = warnings,
           Failed = failed, CanProceed = (failed = 0)\<rparr>)"

definition mockResults :: "string \<Rightarrow> bool \<Rightarrow> time \<Rightarrow> PrecheckResult list" where
  "mockResults targetImage skipForestCheck now =
     [\<lparr>pr_Name = ''Image Change Validation'', pr_Status = ''PASS'',
       pr_Message = ''New image version validated and accessible'',
       pr_Details = ''Target image: '' @ targetImage,
       pr_Timestamp = now, pr_Duration = ''1.5s'', pr_Remediation = []\<rparr>,
      \<lparr>pr_Name = ''Cluster Health Check'', pr_Status = ''PASS'',
       pr_Message = ''All cluster nodes are healthy and responding'',
       pr_Details = [],
       pr_Timestamp = now, pr_Duration = ''2.5s'', pr_Remediation = []\<rparr>,
      \<lparr>pr_Name = ''Database Connectivity'', pr_Status = ''PASS'',
       pr_Message = ''All databases are accessible and responsive'',
       pr_Details = [],
       pr_Timestamp = now, pr_Duration = ''1.8s'', pr_Remediation = []\<rparr>,
      (if \<not> skipForestCheck then
         \<lparr>pr_Name = ''Forest Health Check'', pr_Status = ''WARN'',
          pr_Message = ''Some forests show minor performance degradation'',
          pr_Details = ''Forests in data-node-2 showing 5% higher response times'',
          pr_Timestamp = now, pr_Duration = ''4.2s'',
          pr_Remediation = ''Monitor forest performance during upgrade''\<rparr>
       else
         \<lparr>pr_Name = ''Forest Health Check'', pr_Status = ''PASS'',
          pr_Message = ''Forest health check skipped per annotation'',
          pr_Details = [],
          pr_Timestamp = now, pr_Duration = ''0s'', pr_Remediation = []\<rparr>),
      \<lparr>pr_Name = ''Resource Availability'', pr_Status = ''PASS'',
       pr_Message = ''Sufficient CPU and memory available for upgrade'',
       pr_Details = ''CPU: 65% used, Memory: 70% used, Storage: 45% used'',
       pr_Timestamp = now, pr_Duration = ''1.2s'', pr_Remediation = []\<rparr>,
      \<lparr>pr_Name = ''Backup Status'', pr_Status = ''WARN'',
       pr_Message = ''Latest backup is 25 hours old'',
       pr_Details = ''Last successful backup: 2024-01-15 10:30:00 UTC'',
       pr_Timestamp = now, pr_Duration = ''0.8s'',
       pr_Remediation = ''Consider creating a fresh backup before proceeding''\<rparr>,
      \<lparr>pr_Name = ''License Validation'', pr_Status = ''PASS'',
       pr_Message = ''MarkLogic license is valid and has sufficient capacity'',
       pr_Details = [],
       pr_Timestamp = now, pr_Duration = ''0.5s'', pr_Remediation = []\<rparr>,
      \<lparr>pr_Name = ''Network Connectivity'', pr_Status = ''PASS'',
       pr_Message = ''All inter-node network connections are healthy'',
       pr_Details = [],
       pr_Timestamp = now, pr_Duration = ''3.1s'', pr_Remediation = []\<rparr>]"

definition generateMockPrecheckResults :: "MarklogicCluster \<Rightarrow> bool \<Rightarrow> time \<Rightarrow> PrecheckResults" where
  "generateMockPrecheckResults cluster skipForestCheck now =
     (let results = mockResults (spec_Image cluster) skipForestCheck now in
      \<lparr>Results = results,
       Summary = calculateSummary results,
       Timestamp = now,
       ClusterRef = cl_Namespace cluster @ ''/'' @ cl_Name cluster\<rparr>)"

text \<open>
  \<open>CheckPrecheckStatus\<close> returns \<open>(done, report, error)\<close>; \<open>now\<close> is the reading
  of \<open>time.Now()\<close> inside the generator.
\<close>

definition CheckPrecheckStatus ::
  "MarklogicCluster \<Rightarrow> time \<Rightarrow> bool \<times> PrecheckResults option \<times> string option" where
  "CheckPrecheckStatus cluster now =
     (let skipForestCheck = (lookup (cl_Annotations cluster) AnnotationSkipForestCheck = ''true'');
          results = generateMockPrecheckResults cluster skipForestCheck now
      in (True, Some results, None))"

section \<open>The orchestrator's environment\<close>

text \<open>
  The handlers act on the in-memory cluster object (\<open>cluster\<close>) and reach the outside
  through the embedded \<open>client.Client\<close> and the event recorder. The state store
  (\<open>stored\<close>) is the object as the API server holds it: \<open>Update\<close> commits the
  object without its status, \<open>Status().Update\<close> commits the status sub-record alone
  (the reconciler is granted the \<open>marklogicclusters/status\<close> subresource). A call
  that succeeds writes the server's answer, the object as it is now stored, back into the
  object it was given: after \<open>Update\<close> the in-memory status is the stored one, not
  the one set before the call. Either call can fail; \<open>faults\<close> lists the outcomes of
  the successive write calls of one invocation (\<open>None\<close>: the call succeeds; an
  exhausted list: every further call succeeds), and a failed call commits nothing and
  leaves the in-memory object as it was. \<open>statefulSets\<close> is what \<open>Get\<close> finds for a
  namespace and name, and \<open>clock\<close> is the reading of \<open>time.Now()\<close>.
\<close>

record StatefulSet =
  sts_ReadyReplicas :: int32

record World =
  cluster :: MarklogicCluster
  stored :: MarklogicCluster
  events :: "Event list"
  faults :: "string option list"
  statefulSets :: "string \<times> string \<rightharpoonup> StatefulSet"
  clock :: time

text \<open>
  \<open>encoding/json\<close> is Go's standard library: \<open>json.Marshal\<close> is a parameter of
  the handler, returning the document or an error.
\<close>

record UpgradeHandler =
  json_Marshal :: "PrecheckResults \<Rightarrow> string + string"

definition nextFault :: "World \<Rightarrow> string option \<times> World" where
  "nextFault w = (case faults w of [] \<Rightarrow> (None, w) | f # fs \<Rightarrow> (f, w\<lparr>faults := fs\<rparr>))"

definition client_Update :: "World \<Rightarrow> string option \<times> World" where
  "client_Update w =
     (case nextFault w of
        (Some err, w') \<Rightarrow> (Some err, w')
      | (None, w') \<Rightarrow>
          (let answer = (cluster w')\<lparr>cl_Status := cl_Status (stored w')\<rparr>
           in (None, w'\<lparr>stored := answer, cluster := answer\<rparr>)))"

definition client_Status_Update :: "World \<Rightarrow> string option \<times> World" where
  "client_Status_Update w =
     (case nextFault w of
        (Some err, w') \<Rightarrow> (Some err, w')
      | (None, w') \<Rightarrow>
          (let answer = (stored w')\<lparr>cl_Status := cl_Status (cluster w')\<rparr>
           in (None, w'\<lparr>stored := answer, cluster := answer\<rparr>)))"

definition Recorder_Event :: "EventType \<Rightarrow> string \<Rightarrow> string \<Rightarrow> World \<Rightarrow> World" where
  "Recorder_Event t reason message w =
     w\<lparr>events := events w @ [\<lparr>ev_Type = t, ev_Reason = reason, ev_Message = message\<rparr>]\<rparr>"

definition Sleep :: "duration \<Rightarrow> World \<Rightarrow> World" where
  "Sleep d w = w\<lparr>clock := clock w + d\<rparr>"

text \<open>The \<open>%d\<close> verb of \<open>fmt.Sprintf\<close> on a slice length.\<close>

fun showNat :: "nat \<Rightarrow> string" where
  "showNat n =
     (if n < 10 then [char_of (48 + n)]
      else showNat (n div 10) @ [char_of (48 + n mod 10)])"

declare showNat.simps [simp del]

section \<open>Rollout executor\<close>

definition performRollingUpgrade :: "World \<Rightarrow> string option \<times> World" where
  "performRollingUpgrade w =
     (None,
      fold (\<lambda>step w. Sleep (1 * Second) (Recorder_Event EventTypeNormal ''UpgradeProgress'' step w))
        [''Updating cluster specification'',
         ''Rolling out new image to StatefulSets'',
         ''Waiting for pod updates'',
         ''Validating cluster health'',
         ''Finalizing upgrade configuration''] w)"

definition StartRollingUpgrade :: "World \<Rightarrow> string option \<times> World" where
  "StartRollingUpgrade w =
     performRollingUpgrade
       (Recorder_Event EventTypeNormal ''RollingUpgradeStarted'' ''Rolling upgrade initiated'' w)"

definition checkStatefulSetUpgradeStatus ::
  "World \<Rightarrow> MarklogicCluster \<Rightarrow> MarklogicGroups \<Rightarrow> bool \<times> string option" where
  "checkStatefulSetUpgradeStatus w c g =
     (case statefulSets w (cl_Namespace c, grp_Name g) of
        None \<Rightarrow> (False, None)
      | Some sts \<Rightarrow>
          if sts_ReadyReplicas sts = grp_Replicas g then (True, None) else (False, None))"

definition performClusterHealthCheck :: "World \<Rightarrow> (bool \<times> string option) \<times> World" where
  "performClusterHealthCheck w =
     ((True, None),
      Recorder_Event EventTypeNormal ''HealthCheckPassed'' ''Post-upgrade cluster health check passed''
        (fold (\<lambda>check w. Sleep (500 * Millisecond) (Recorder_Event EventTypeNormal ''HealthCheck'' check w))
           [''Checking MarkLogic cluster status'',
            ''Validating node connectivity'',
            ''Testing database access'',
            ''Verifying cluster configuration'',
            ''Running basic functionality tests''] w))"

text \<open>
  The loop of \<open>checkUpgradeProgress\<close> over the member groups: it returns at the first
  error, and otherwise carries the flag \<open>allUpdated\<close>.
\<close>

fun groupsLoop ::
  "World \<Rightarrow> MarklogicCluster \<Rightarrow> MarklogicGroups list \<Rightarrow> bool \<Rightarrow> bool \<times> string option" where
  "groupsLoop w c [] allUpdated = (allUpdated, None)"
| "groupsLoop w c (g # gs) allUpdated =
     (case checkStatefulSetUpgradeStatus w c g of
        (updated, Some err) \<Rightarrow> (False, Some err)
      | (updated, None) \<Rightarrow> groupsLoop w c gs (if \<not> updated then False else allUpdated))"

definition checkUpgradeProgress :: "World \<Rightarrow> (bool \<times> string option) \<times> World" where
  "checkUpgradeProgress w =
     (case groupsLoop w (cluster w) (spec_MarkLogicGroups (cluster w)) True of
        (allUpdated, Some err) \<Rightarrow> ((False, Some err), w)
      | (allUpdated, None) \<Rightarrow>
          if allUpdated then
            (case performClusterHealthCheck w of
               ((healthy, Some err), w') \<Rightarrow> ((False, Some err), w')
             | ((healthy, None), w') \<Rightarrow>
                 if \<not> healthy then ((False, None), w') else ((True, None), w'))
          else ((False, None), w))"

definition CheckUpgradeStatus :: "World \<Rightarrow> (bool \<times> string option) \<times> World" where
  "CheckUpgradeStatus w =
     (case checkUpgradeProgress w of
        ((completed, Some err), w') \<Rightarrow> ((False, Some err), w')
      | ((completed, None), w') \<Rightarrow>
          if completed then
            ((completed, None),
             Recorder_Event EventTypeNormal ''RollingUpgradeCompleted''
               ''Rolling upgrade completed successfully'' w')
          else ((completed, None), w'))"

section \<open>Upgrade orchestrator\<close>

definition StartPrechecks :: "World \<Rightarrow> string option \<times> World" where
  "StartPrechecks w =
     (None, Recorder_Event EventTypeNormal ''PrecheckStarted'' ''Starting upgrade prechecks'' w)"

definition ToJSON :: "UpgradeHandler \<Rightarrow> PrecheckResults \<Rightarrow> string + string" where
  "ToJSON h r = (case json_Marshal h r of Inl err \<Rightarrow> Inl err | Inr data \<Rightarrow> Inr data)"

fun updateCondition :: "Condition list \<Rightarrow> Condition \<Rightarrow> Condition list" where
  "updateCondition [] newCondition = [newCondition]"
| "updateCondition (condition # conditions) newCondition =
     (if cond_Type condition = cond_Type newCondition then newCondition # conditions
      else condition # updateCondition conditions newCondition)"

definition detectImageChanges :: "MarklogicCluster \<Rightarrow> bool" where
  "detectImageChanges c =
     (let currentImage = CurrentImage (cl_Status c); desiredImage = spec_Image c
      in if currentImage = [] then False else currentImage \<noteq> desiredImage)"

definition isClusterDeployed :: "time \<Rightarrow> MarklogicCluster \<Rightarrow> bool" where
  "isClusterDeployed now c =
     (if CurrentImage (cl_Status c) \<noteq> [] then True
      else if now - cl_CreationTimestamp c < 5 * Minute then False
      else if list_ex (\<lambda>condition.
                 (cond_Type condition = ''Ready'' \<and> cond_Status condition = ''True'') \<or>
                 (cond_Type condition = ''Deployed'' \<and> cond_Status condition = ''True''))
               (Conditions (cl_Status c)) then True
      else now - cl_CreationTimestamp c > 5 * Minute)"

definition setCurrentImage :: "World \<Rightarrow> World" where
  "setCurrentImage w =
     w\<lparr>cluster := (cluster w)\<lparr>cl_Status :=
         (cl_Status (cluster w))\<lparr>CurrentImage := spec_Image (cluster w)\<rparr>\<rparr>\<rparr>"

definition updateCurrentImages :: "World \<Rightarrow> string option \<times> World" where
  "updateCurrentImages w = client_Status_Update (setCurrentImage w)"

definition updateStatusAfterDeployment :: "World \<Rightarrow> string option \<times> World" where
  "updateStatusAfterDeployment w = client_Status_Update (setCurrentImage w)"

text \<open>
  The in-memory part of \<open>updateUpgradeStateWithResults\<close>: the annotations, the status
  fields and the condition are set on the object before anything is written.
\<close>

definition stageUpgradeState ::
  "UpgradeHandler \<Rightarrow> string \<Rightarrow> PrecheckResults option \<Rightarrow> World \<Rightarrow> World" where
  "stageUpgradeState h state results w =
     (let c = cluster w;
          annotations = (cl_Annotations c)(AnnotationUpgradeState \<mapsto> state);
          annotations =
            (case results of
               None \<Rightarrow> annotations
             | Some r \<Rightarrow>
                 (case ToJSON h r of
                    Inl err \<Rightarrow> annotations
                  | Inr resultsJson \<Rightarrow> annotations(AnnotationPrecheckResults \<mapsto> resultsJson)));
          terminal = (state = UpgradeStateCompleted \<or> state = UpgradeStateFailed \<or>
                      state = UpgradeStateCancelled);
          condition =
            \<lparr>cond_Type = ''UpgradeInProgress'',
             cond_Status = (if terminal then ''False'' else ''True''),
             cond_Reason = state,
             cond_Message = ''Upgrade workflow in state: '' @ state,
             cond_LastTransitionTime = clock w\<rparr>;
          st = cl_Status c;
          st = st\<lparr>UpgradePaused := (state = UpgradeStateWaitingUser), UpgradeState := state\<rparr>;
          st = (if terminal \<and> state = UpgradeStateCompleted
                then st\<lparr>LastUpgradeTime := Some (clock w)\<rparr> else st);
          st = st\<lparr>Conditions := updateCondition (Conditions st) condition\<rparr>
      in w\<lparr>cluster := c\<lparr>cl_Annotations := annotations, cl_Status := st\<rparr>\<rparr>)"

text \<open>The two writes that end both \<open>updateUpgradeStateWithResults\<close> and
  \<open>cleanupUpgradeAnnotations\<close>: the object first, the status second.\<close>

definition commitObjectThenStatus :: "World \<Rightarrow> (CtrlResult \<times> string option) \<times> World" where
  "commitObjectThenStatus w =
     (case client_Update w of
        (Some err, w1) \<Rightarrow> ((NoRequeue, Some err), w1)
      | (None, w1) \<Rightarrow>
          (case client_Status_Update w1 of
             (Some err, w2) \<Rightarrow> ((NoRequeue, Some err), w2)
           | (None, w2) \<Rightarrow> ((NoRequeue, None), w2)))"

definition updateUpgradeStateWithResults ::
  "UpgradeHandler \<Rightarrow> string \<Rightarrow> PrecheckResults option \<Rightarrow> World \<Rightarrow>
   (CtrlResult \<times> string option) \<times> World" where
  "updateUpgradeStateWithResults h state results w =
     commitObjectThenStatus (stageUpgradeState h state results w)"

definition updateUpgradeState ::
  "UpgradeHandler \<Rightarrow> string \<Rightarrow> World \<Rightarrow> (CtrlResult \<times> string option) \<times> World" where
  "updateUpgradeState h state w = updateUpgradeStateWithResults h state None w"

definition stageCleanup :: "string \<Rightarrow> World \<Rightarrow> World" where
  "stageCleanup finalState w =
     (let c = cluster w;
          annotations = (cl_Annotations c)(AnnotationUpgradeState \<mapsto> finalState);
          annotations = annotations(AnnotationTriggerUpgrade := None);
          annotations = annotations(AnnotationProceedUpgrade := None);
          annotations = annotations(AnnotationCancelUpgrade := None);
          st = cl_Status c;
          st = st\<lparr>UpgradePaused := False, UpgradeState := finalState\<rparr>;
          st = (if finalState = UpgradeStateCompleted
                then st\<lparr>LastUpgradeTime := Some (clock w)\<rparr> else st);
          condition =
            \<lparr>cond_Type = ''UpgradeInProgress'',
             cond_Status = ''False'',
             cond_Reason = finalState,
             cond_Message = ''Upgrade workflow completed with state: '' @ finalState,
             cond_LastTransitionTime = clock w\<rparr>;
          st = st\<lparr>Conditions := updateCondition (Conditions st) condition\<rparr>
      in w\<lparr>cluster := c\<lparr>cl_Annotations := annotations, cl_Status := st\<rparr>\<rparr>)"

definition cleanupUpgradeAnnotations ::
  "string \<Rightarrow> World \<Rightarrow> (CtrlResult \<times> string option) \<times> World" where
  "cleanupUpgradeAnnotations finalState w = commitObjectThenStatus (stageCleanup finalState w)"

definition handleIdleState ::
  "UpgradeHandler \<Rightarrow> annotations \<Rightarrow> World \<Rightarrow> (CtrlResult \<times> string option) \<times> World" where
  "handleIdleState h annotations w =
     (if lookup annotations AnnotationTriggerUpgrade = ''true'' then
        (case StartPrechecks w of
           (Some err, w1) \<Rightarrow>
             updateUpgradeState h UpgradeStateFailed
               (Recorder_Event EventTypeWarning ''PrecheckFailed''
                  (''Failed to start prechecks: '' @ err) w1)
         | (None, w1) \<Rightarrow>
             updateUpgradeState h UpgradeStatePrecheckStart
               (Recorder_Event EventTypeNormal ''PrecheckStarted'' ''Upgrade prechecks started'' w1))
      else ((NoRequeue, None), w))"

definition handlePrecheckStartState ::
  "UpgradeHandler \<Rightarrow> annotations \<Rightarrow> World \<Rightarrow> (CtrlResult \<times> string option) \<times> World" where
  "handlePrecheckStartState h annotations w =
     (case CheckPrecheckStatus (cluster w) (clock w) of
        (completed, results, Some err) \<Rightarrow>
          updateUpgradeState h UpgradeStateFailed
            (Recorder_Event EventTypeWarning ''PrecheckError''
               (''Error during prechecks: '' @ err) w)
      | (completed, results, None) \<Rightarrow>
          if \<not> completed then ((\<lparr>Requeue = False, RequeueAfter = Minute * 2\<rparr>, None), w)
          else
            updateUpgradeStateWithResults h UpgradeStatePrecheckDone results
              (Recorder_Event EventTypeNormal ''PrecheckCompleted''
                 (''Prechecks completed with '' @
                  showNat (length (case results of None \<Rightarrow> [] | Some r \<Rightarrow> Results r)) @
                  '' checks'') w))"

definition handlePrecheckDoneState ::
  "UpgradeHandler \<Rightarrow> annotations \<Rightarrow> World \<Rightarrow> (CtrlResult \<times> string option) \<times> World" where
  "handlePrecheckDoneState h annotations w =
     updateUpgradeState h UpgradeStateWaitingUser
       (Recorder_Event EventTypeNormal ''AwaitingApproval''
          (''Prechecks completed. Review results and set annotation '' @ AnnotationProceedUpgrade @
           ''=true to proceed or '' @ AnnotationCancelUpgrade @ ''=true to cancel'') w)"

definition handleWaitingUserState ::
  "UpgradeHandler \<Rightarrow> annotations \<Rightarrow> World \<Rightarrow> (CtrlResult \<times> string option) \<times> World" where
  "handleWaitingUserState h annotations w =
     (if lookup annotations AnnotationProceedUpgrade = ''true'' then
        (case StartRollingUpgrade
                (Recorder_Event EventTypeNormal ''UpgradeApproved''
                   ''User approved upgrade, starting rolling upgrade'' w) of
           (Some err, w1) \<Rightarrow>
             updateUpgradeState h UpgradeStateFailed
               (Recorder_Event EventTypeWarning ''UpgradeFailed''
                  (''Failed to start rolling upgrade: '' @ err) w1)
         | (None, w1) \<Rightarrow> updateUpgradeState h UpgradeStateInProgress w1)
      else ((\<lparr>Requeue = False, RequeueAfter = Minute * 5\<rparr>, None), w))"

definition handleInProgressState ::
  "UpgradeHandler \<Rightarrow> annotations \<Rightarrow> World \<Rightarrow> (CtrlResult \<times> string option) \<times> World" where
  "handleInProgressState h annotations w =
     (case CheckUpgradeStatus w of
        ((completed, Some err), w1) \<Rightarrow>
          updateUpgradeState h UpgradeStateFailed
            (Recorder_Event EventTypeWarning ''UpgradeError''
               (''Error during rolling upgrade: '' @ err) w1)
      | ((completed, None), w1) \<Rightarrow>
          if \<not> completed then ((\<lparr>Requeue = False, RequeueAfter = Minute * 2\<rparr>, None), w1)
          else
            (case updateCurrentImages
                    (Recorder_Event EventTypeNormal ''UpgradeCompleted''
                       ''Rolling upgrade completed successfully'' w1) of
               (err, w2) \<Rightarrow> cleanupUpgradeAnnotations UpgradeStateCompleted w2))"

definition handleCancellation ::
  "UpgradeHandler \<Rightarrow> annotations \<Rightarrow> World \<Rightarrow> (CtrlResult \<times> string option) \<times> World" where
  "handleCancellation h annotations w =
     (let currentState = lookup annotations AnnotationUpgradeState in
      if currentState = UpgradeStateInProgress then
        ((NoRequeue, None),
         Recorder_Event EventTypeWarning ''CancellationDenied''
           ''Cannot cancel upgrade while rolling upgrade is in progress'' w)
      else
        cleanupUpgradeAnnotations UpgradeStateCancelled
          (Recorder_Event EventTypeNormal ''UpgradeCancelled'' ''Upgrade cancelled by user'' w))"

text \<open>
  The automatic trigger of \<open>HandleUpgradeWorkflow\<close>: on an image change the trigger
  annotation is set on the object and written at once. The result is the error of that
  write, the annotations the rest of the invocation reads, and the world.
\<close>

definition autoTrigger ::
  "string \<Rightarrow> annotations \<Rightarrow> World \<Rightarrow> string option \<times> annotations \<times> World" where
  "autoTrigger currentState annotations w =
     (if currentState = UpgradeStateIdle \<and> isClusterDeployed (clock w) (cluster w) then
        (if detectImageChanges (cluster w) then
           (let annotations' = annotations(AnnotationTriggerUpgrade \<mapsto> ''true'') in
            case client_Update (w\<lparr>cluster := (cluster w)\<lparr>cl_Annotations := annotations'\<rparr>\<rparr>) of
              (err, w1) \<Rightarrow> (err, annotations', w1))
         else (None, annotations, w))
      else (None, annotations, w))"

definition dispatch ::
  "UpgradeHandler \<Rightarrow> string \<Rightarrow> annotations \<Rightarrow> World \<Rightarrow> (CtrlResult \<times> string option) \<times> World" where
  "dispatch h currentState annotations w =
     (if currentState = UpgradeStateIdle then handleIdleState h annotations w
      else if currentState = UpgradeStatePrecheckStart then handlePrecheckStartState h annotations w
      else if currentState = UpgradeStatePrecheckDone then handlePrecheckDoneState h annotations w
      else if currentState = UpgradeStateWaitingUser then handleWaitingUserState h annotations w
      else if currentState = UpgradeStateInProgress then handleInProgressState h annotations w
      else if currentState = UpgradeStateCompleted \<or> currentState = UpgradeStateFailed \<or>
              currentState = UpgradeStateCancelled
      then cleanupUpgradeAnnotations UpgradeStateIdle w
      else updateUpgradeState h UpgradeStateIdle w)"

definition HandleUpgradeWorkflow ::
  "UpgradeHandler \<Rightarrow> World \<Rightarrow> (CtrlResult \<times> string option) \<times> World" where
  "HandleUpgradeWorkflow h w =
     (let annotations = cl_Annotations (cluster w);
          currentState = (if lookup annotations AnnotationUpgradeState = []
                          then UpgradeStateIdle
                          else lookup annotations AnnotationUpgradeState)
      in if currentState = UpgradeStateIdle \<and> \<not> isClusterDeployed (clock w) (cluster w) then
           (case updateStatusAfterDeployment w of
              (Some err, w1) \<Rightarrow> ((NoRequeue, Some err), w1)
            | (None, w1) \<Rightarrow> ((NoRequeue, None), w1))
         else
           (case autoTrigger currentState annotations w of
              (Some err, annotations1, w1) \<Rightarrow> ((NoRequeue, Some err), w1)
            | (None, annotations1, w1) \<Rightarrow>
                if currentState = UpgradeStateIdle \<and>
                   lookup annotations1 AnnotationTriggerUpgrade \<noteq> ''true''
                then ((NoRequeue, None), w1)
                else if lookup annotations1 AnnotationCancelUpgrade = ''true''
                then handleCancellation h annotations1 w1
                else dispatch h currentState annotations1 w1))"

section \<open>Notions used in the properties\<close>

text \<open>Every write call of the invocation succeeds.\<close>

definition writesSucceed :: "World \<Rightarrow> bool" where
  "writesSucceed w = (set (faults w) \<subseteq> {None})"

text \<open>
  A member group has converged when its workload exists and reports as many ready
  replicas as the group desires.
\<close>

definition groupConverged :: "World \<Rightarrow> MarklogicGroups \<Rightarrow> bool" where
  "groupConverged w g =
     (case statefulSets w (cl_Namespace (cluster w), grp_Name g) of
        None \<Rightarrow> False
      | Some sts \<Rightarrow> sts_ReadyReplicas sts = grp_Replicas g)"

text \<open>
  The state an invocation acts on: an absent or empty state annotation is read as
  \<open>Idle\<close>.
\<close>

definition effectiveState :: "MarklogicCluster \<Rightarrow> string" where
  "effectiveState c =
     (if lookup (cl_Annotations c) AnnotationUpgradeState = [] then UpgradeStateIdle
      else lookup (cl_Annotations c) AnnotationUpgradeState)"

text \<open>
  A concrete cluster, world and handler on which the properties are evaluated: the
  single-group cluster of the demo walk-through, read from the store at the start of an
  invocation, with no workload deployed. The handler's \<open>json.Marshal\<close> is a
  stand-in that prints the cluster reference only; nothing evaluated below depends on
  the document it returns.
\<close>

definition demoCluster :: "annotations \<Rightarrow> string \<Rightarrow> string \<Rightarrow> MarklogicCluster" where
  "demoCluster anns desiredImage currentImage =
     \<lparr>cl_Name = ''test-cluster'', cl_Namespace = ''default'', cl_CreationTimestamp = 0,
      cl_Annotations = anns, spec_Image = desiredImage,
      spec_MarkLogicGroups = [\<lparr>grp_Name = ''node'', grp_Replicas = 1\<rparr>],
      cl_Status = \<lparr>CurrentImage = currentImage, UpgradePaused = False, UpgradeState = [],
                   LastUpgradeTime = None, Conditions = []\<rparr>\<rparr>"

definition demoWorld :: "annotations \<Rightarrow> string \<Rightarrow> string \<Rightarrow> string option list \<Rightarrow> World" where
  "demoWorld anns desiredImage currentImage fs =
     \<lparr>cluster = demoCluster anns desiredImage currentImage,
      stored = demoCluster anns desiredImage currentImage,
      events = [], faults = fs, statefulSets = Map.empty, clock = 0\<rparr>"

definition demoHandler :: UpgradeHandler where
  "demoHandler = \<lparr>json_Marshal = (\<lambda>r. Inr (ClusterRef r))\<rparr>"

text \<open>
  A persisted report with one failed check, as \<open>json.Marshal\<close> prints one, and a
  cluster that waits for approval with that report stored and the proceed signal set.
\<close>

definition failedReportJSON :: string where
  \<open>failedReportJSON = ''{"results":[{"name":"Cluster Health Check","status":"FAIL","message":"Two cluster nodes are not responding","timestamp":"2024-01-15T10:30:00Z","duration":"2.5s"}],"summary":{"total":1,"passed":0,"warnings":0,"failed":1,"canProceed":false},"timestamp":"2024-01-15T10:30:00Z","clusterRef":"default/test-cluster"}''\<close>

definition approvedDespiteFailure :: World where
  "approvedDespiteFailure =
     demoWorld [AnnotationUpgradeState \<mapsto> UpgradeStateWaitingUser,
                AnnotationProceedUpgrade \<mapsto> ''true'',
                AnnotationPrecheckResults \<mapsto> failedReportJSON] ''11.4.0'' ''11.3.0'' []"

text \<open>
  The world after the automatic trigger has been set on the object and written.
\<close>

definition withTrigger :: "World \<Rightarrow> World" where
  "withTrigger w =
     (let c = (cluster w)\<lparr>cl_Annotations :=
                 (cl_Annotations (cluster w))(AnnotationTriggerUpgrade \<mapsto> ''true''),
               cl_Status := cl_Status (stored w)\<rparr>
      in w\<lparr>faults := tl (faults w), stored := c, cluster := c\<rparr>)"

text \<open>An idle, deployed cluster with no image change, on which the cancel signal is set.\<close>

definition cancelledWhileIdle :: World where
  "cancelledWhileIdle =
     demoWorld [AnnotationUpgradeState \<mapsto> UpgradeStateIdle, AnnotationCancelUpgrade \<mapsto> ''true'']
       ''11.3.0'' ''11.3.0'' []"

text \<open>
  Further concrete worlds: a completed upgrade on which the cancel signal is set, an
  unrecognised state with the cancel signal set, an image change with the cancel signal
  set, and a transition whose object write succeeds and whose status write fails.
\<close>

definition cancelledAfterCompletion :: World where
  "cancelledAfterCompletion =
     demoWorld [AnnotationUpgradeState \<mapsto> UpgradeStateCompleted,
                AnnotationCancelUpgrade \<mapsto> ''true''] ''11.4.0'' ''11.4.0'' []"

definition pausedAndCancelled :: World where
  "pausedAndCancelled =
     demoWorld [AnnotationUpgradeState \<mapsto> UpgradeStatePaused,
                AnnotationCancelUpgrade \<mapsto> ''true''] ''11.4.0'' ''11.3.0'' []"

definition imageChangedAndCancelled :: World where
  "imageChangedAndCancelled =
     demoWorld [AnnotationCancelUpgrade \<mapsto> ''true''] ''11.4.0'' ''11.3.0'' []"

definition statusWriteFails :: World where
  "statusWriteFails =
     demoWorld [AnnotationUpgradeState \<mapsto> UpgradeStatePrecheckDone] ''11.4.0'' ''11.3.0''
       [None, Some ''conflict'']"

text \<open>
  Worlds in which a write fails: the first write of a transition; the write that follows
  the automatic trigger; and, on a converged cluster in state \<open>UpgradeInProgress\<close>,
  the write that follows the recording of the current image.
\<close>

definition objectWriteFails :: World where
  "objectWriteFails =
     demoWorld [AnnotationUpgradeState \<mapsto> UpgradeStatePrecheckDone] ''11.4.0'' ''11.3.0''
       [Some ''conflict'']"

definition triggerWrittenThenConflict :: World where
  "triggerWrittenThenConflict =
     demoWorld Map.empty ''11.4.0'' ''11.3.0'' [None, Some ''conflict'']"

definition convergedThenConflict :: World where
  "convergedThenConflict =
     (demoWorld [AnnotationUpgradeState \<mapsto> UpgradeStateInProgress] ''11.4.0'' ''11.3.0''
        [None, Some ''conflict''])
       \<lparr>statefulSets := [(''default'', ''node'') \<mapsto> \<lparr>sts_ReadyReplicas = 1\<rparr>]\<rparr>"

section \<open>Properties of the precheck runner\<close>

lemma countStatuses_acc:
  "countStatuses rs (p, w, f) =
     (p + int (length (filter (\<lambda>r. pr_Status r = ''PASS'') rs)),
      w + int (length (filter (\<lambda>r. pr_Status r = ''WARN'') rs)),
      f + int (length (filter (\<lambda>r. pr_Status r = ''FAIL'') rs)))"
  by (induction rs arbitrary: p w f) auto

lemma Failed_calculateSummary:
  "Failed (calculateSummary rs) = int (length (filter (\<lambda>r. pr_Status r = ''FAIL'') rs))"
  by (simp add: calculateSummary_def countStatuses_acc)

lemma CanProceed_calculateSummary:
  "CanProceed (calculateSummary rs) = (Failed (calculateSummary rs) = 0)"
  by (simp add: calculateSummary_def countStatuses_acc)

lemma no_fail_iff:
  "(filter (\<lambda>r. pr_Status r = ''FAIL'') rs = []) = (''FAIL'' \<notin> pr_Status ` set rs)"
  by (force simp: filter_empty_conv image_iff)

lemma CanProceed_iff_no_fail:
  "CanProceed (calculateSummary rs) = (''FAIL'' \<notin> pr_Status ` set rs)"
  by (simp add: CanProceed_calculateSummary Failed_calculateSummary no_fail_iff)

lemma length_mockResults: "length (mockResults i s n) = 8"
  by (simp add: mockResults_def)

lemma statuses_mockResults:
  "map pr_Status (mockResults i s n) =
     [''PASS'', ''PASS'', ''PASS'', if s then ''PASS'' else ''WARN'',
      ''PASS'', ''WARN'', ''PASS'', ''PASS'']"
  by (simp add: mockResults_def)

text \<open>
  Claim C4. The summary of every report the runner produces is the summary loop applied
  to the report's own results, and for every list of results the loop yields
  \<open>canProceed = (failed = 0)\<close>; this holds exactly when no result has status
  \<open>FAIL\<close>, and dropping the \<open>WARN\<close> results leaves \<open>canProceed\<close> as it is.
\<close>

theorem canProceed_iff_no_failure:
  "Summary (generateMockPrecheckResults c skip now) =
     calculateSummary (Results (generateMockPrecheckResults c skip now)) \<and>
   CanProceed (calculateSummary rs) = (Failed (calculateSummary rs) = 0) \<and>
   CanProceed (calculateSummary rs) = (''FAIL'' \<notin> pr_Status ` set rs) \<and>
   CanProceed (calculateSummary (filter (\<lambda>r. pr_Status r \<noteq> ''WARN'') rs)) =
     CanProceed (calculateSummary rs)"
proof (intro conjI)
  show "Summary (generateMockPrecheckResults c skip now) =
     calculateSummary (Results (generateMockPrecheckResults c skip now))"
    by (simp add: generateMockPrecheckResults_def Let_def)
  show "CanProceed (calculateSummary rs) = (Failed (calculateSummary rs) = 0)"
    by (rule CanProceed_calculateSummary)
  show "CanProceed (calculateSummary rs) = (''FAIL'' \<notin> pr_Status ` set rs)"
    by (rule CanProceed_iff_no_fail)
  show "CanProceed (calculateSummary (filter (\<lambda>r. pr_Status r \<noteq> ''WARN'') rs)) =
     CanProceed (calculateSummary rs)"
    by (force simp: CanProceed_iff_no_fail image_iff)
qed

section \<open>Properties of the store writes\<close>

lemma nextFault_ok:
  "writesSucceed w \<Longrightarrow> nextFault w = (None, w\<lparr>faults := tl (faults w)\<rparr>)"
  by (cases "faults w") (auto simp: writesSucceed_def nextFault_def)

lemma writesSucceed_tl [simp]:
  "writesSucceed w \<Longrightarrow> writesSucceed (w\<lparr>faults := tl (faults w)\<rparr>)"
  by (cases "faults w") (auto simp: writesSucceed_def)

lemma writesSucceed_upd [simp]:
  "writesSucceed (w\<lparr>stored := s\<rparr>) = writesSucceed w"
  "writesSucceed (w\<lparr>cluster := c\<rparr>) = writesSucceed w"
  "writesSucceed (w\<lparr>events := e\<rparr>) = writesSucceed w"
  "writesSucceed (w\<lparr>clock := t\<rparr>) = writesSucceed w"
  by (simp_all add: writesSucceed_def)

lemma client_Update_ok:
  "writesSucceed w \<Longrightarrow>
   client_Update w =
     (None, w\<lparr>faults := tl (faults w),
             stored := (cluster w)\<lparr>cl_Status := cl_Status (stored w)\<rparr>,
             cluster := (cluster w)\<lparr>cl_Status := cl_Status (stored w)\<rparr>\<rparr>)"
  by (simp add: client_Update_def nextFault_ok Let_def)

lemma client_Status_Update_ok:
  "writesSucceed w \<Longrightarrow>
   client_Status_Update w =
     (None, w\<lparr>faults := tl (faults w),
             stored := (stored w)\<lparr>cl_Status := cl_Status (cluster w)\<rparr>,
             cluster := (stored w)\<lparr>cl_Status := cl_Status (cluster w)\<rparr>\<rparr>)"
  by (simp add: client_Status_Update_def nextFault_ok Let_def)

lemma commit_ok:
  "writesSucceed w \<Longrightarrow>
   commitObjectThenStatus w =
     ((NoRequeue, None),
      w\<lparr>faults := tl (tl (faults w)),
        stored := (cluster w)\<lparr>cl_Status := cl_Status (stored w)\<rparr>,
        cluster := (cluster w)\<lparr>cl_Status := cl_Status (stored w)\<rparr>\<rparr>)"
  by (simp add: commitObjectThenStatus_def client_Update_ok client_Status_Update_ok)

lemma commit_result: "fst (fst (commitObjectThenStatus w)) = NoRequeue"
  by (simp add: commitObjectThenStatus_def split: prod.splits option.splits)

section \<open>Properties of the rollout executor\<close>

lemma groupsLoop_eq:
  "groupsLoop w (cluster w) gs b = (b \<and> list_all (groupConverged w) gs, None)"
  by (induction gs arbitrary: b)
     (auto simp: checkStatefulSetUpgradeStatus_def groupConverged_def split: option.splits)

lemma checkUpgradeProgress_eq:
  "checkUpgradeProgress w =
     (if list_all (groupConverged w) (spec_MarkLogicGroups (cluster w))
      then ((True, None), snd (performClusterHealthCheck w)) else ((False, None), w))"
  by (simp add: checkUpgradeProgress_def groupsLoop_eq performClusterHealthCheck_def)

section \<open>The precheck report is always ready\<close>

lemma showNat_8: "showNat 8 = ''8''"
  by code_simp

lemma updateWithResults_result:
  "fst (fst (updateUpgradeStateWithResults h s r w)) = NoRequeue"
  by (simp add: updateUpgradeStateWithResults_def commit_result)

text \<open>
  Claim C10. \<open>CheckPrecheckStatus\<close> answers done on every call, with no error and a
  report of exactly eight results, none of them \<open>FAIL\<close>, so \<open>canProceed\<close> holds;
  the skip-forest-check flag changes the fourth result only, from \<open>WARN\<close> to
  \<open>PASS\<close>. Hence the \<open>PrecheckStarted\<close> handler always takes the branch that
  stores the report, and never answers with the two-minute requeue.
\<close>

theorem precheck_status_immediate:
  "CheckPrecheckStatus c now =
     (True,
      Some (generateMockPrecheckResults c
              (lookup (cl_Annotations c) AnnotationSkipForestCheck = ''true'') now),
      None) \<and>
   length (Results (generateMockPrecheckResults c skip now)) = 8 \<and>
   ''FAIL'' \<notin> pr_Status ` set (Results (generateMockPrecheckResults c skip now)) \<and>
   CanProceed (Summary (generateMockPrecheckResults c skip now)) \<and>
   Results (generateMockPrecheckResults c True now) =
     (Results (generateMockPrecheckResults c False now))
       [3 := \<lparr>pr_Name = ''Forest Health Check'', pr_Status = ''PASS'',
              pr_Message = ''Forest health check skipped per annotation'',
              pr_Details = [], pr_Timestamp = now, pr_Duration = ''0s'',
              pr_Remediation = []\<rparr>] \<and>
   pr_Name (Results (generateMockPrecheckResults c False now) ! 3) = ''Forest Health Check'' \<and>
   pr_Status (Results (generateMockPrecheckResults c False now) ! 3) = ''WARN'' \<and>
   handlePrecheckStartState h annotations w =
     updateUpgradeStateWithResults h UpgradeStatePrecheckDone
       (Some (generateMockPrecheckResults (cluster w)
                (lookup (cl_Annotations (cluster w)) AnnotationSkipForestCheck = ''true'')
                (clock w)))
       (Recorder_Event EventTypeNormal ''PrecheckCompleted''
          ''Prechecks completed with 8 checks'' w) \<and>
   fst (fst (handlePrecheckStartState h annotations w)) = NoRequeue \<and>
   fst (fst (handlePrecheckStartState h annotations w)) \<noteq>
     \<lparr>Requeue = False, RequeueAfter = Minute * 2\<rparr>"
proof (intro conjI)
  let ?r = "generateMockPrecheckResults c skip now"
  show "CheckPrecheckStatus c now =
     (True, Some (generateMockPrecheckResults c
              (lookup (cl_Annotations c) AnnotationSkipForestCheck = ''true'') now), None)"
    by (simp add: CheckPrecheckStatus_def)
  show "length (Results ?r) = 8"
    by (simp add: generateMockPrecheckResults_def Let_def length_mockResults)
  have st: "pr_Status ` set (Results ?r) = set (map pr_Status (mockResults (spec_Image c) skip now))"
    by (simp add: generateMockPrecheckResults_def Let_def)
  show nf: "''FAIL'' \<notin> pr_Status ` set (Results ?r)"
    unfolding st statuses_mockResults by simp
  show "CanProceed (Summary ?r)"
    using nf by (simp add: generateMockPrecheckResults_def Let_def CanProceed_iff_no_fail)
  show "Results (generateMockPrecheckResults c True now) =
     (Results (generateMockPrecheckResults c False now))
       [3 := \<lparr>pr_Name = ''Forest Health Check'', pr_Status = ''PASS'',
              pr_Message = ''Forest health check skipped per annotation'',
              pr_Details = [], pr_Timestamp = now, pr_Duration = ''0s'',
              pr_Remediation = []\<rparr>]"
    by (simp add: generateMockPrecheckResults_def Let_def mockResults_def)
  show "pr_Name (Results (generateMockPrecheckResults c False now) ! 3) = ''Forest Health Check''"
    by (simp add: generateMockPrecheckResults_def Let_def mockResults_def)
  show "pr_Status (Results (generateMockPrecheckResults c False now) ! 3) = ''WARN''"
    by (simp add: generateMockPrecheckResults_def Let_def mockResults_def)
  show "handlePrecheckStartState h annotations w =
     updateUpgradeStateWithResults h UpgradeStatePrecheckDone
       (Some (generateMockPrecheckResults (cluster w)
                (lookup (cl_Annotations (cluster w)) AnnotationSkipForestCheck = ''true'')
                (clock w)))
       (Recorder_Event EventTypeNormal ''PrecheckCompleted''
          ''Prechecks completed with 8 checks'' w)"
    by (simp add: handlePrecheckStartState_def CheckPrecheckStatus_def
        generateMockPrecheckResults_def Let_def length_mockResults showNat_8)
  show nr: "fst (fst (handlePrecheckStartState h annotations w)) = NoRequeue"
    by (simp add: handlePrecheckStartState_def CheckPrecheckStatus_def updateWithResults_result)
  show "fst (fst (handlePrecheckStartState h annotations w)) \<noteq>
     \<lparr>Requeue = False, RequeueAfter = Minute * 2\<rparr>"
    unfolding nr by (simp add: NoRequeue_def Minute_def)
qed

section \<open>Rollout status\<close>

lemma HW_not_idle:
  "effectiveState (cluster w) \<noteq> UpgradeStateIdle \<Longrightarrow>
   HandleUpgradeWorkflow h w =
     (if lookup (cl_Annotations (cluster w)) AnnotationCancelUpgrade = ''true''
      then handleCancellation h (cl_Annotations (cluster w)) w
      else dispatch h (lookup (cl_Annotations (cluster w)) AnnotationUpgradeState)
             (cl_Annotations (cluster w)) w)"
  by (auto simp: HandleUpgradeWorkflow_def effectiveState_def autoTrigger_def Let_def
      split: if_splits)

lemma handleInProgress_waiting:
  "\<not> list_all (groupConverged w) (spec_MarkLogicGroups (cluster w)) \<Longrightarrow>
   handleInProgressState h a w = ((\<lparr>Requeue = False, RequeueAfter = Minute * 2\<rparr>, None), w)"
  by (simp add: handleInProgressState_def CheckUpgradeStatus_def checkUpgradeProgress_eq)

text \<open>
  Claim C8. The rollout check answers done exactly when every member group has converged
  and the health probe passes, and never with an error; the probe runs only when all
  groups have converged (otherwise the check leaves the world as it is, without any
  event). While some group has not converged, be it for a missing workload, an invocation
  in state \<open>UpgradeInProgress\<close> changes nothing and asks to be requeued after two
  minutes, so the polling goes on as long as the group stays behind.
\<close>

theorem rollout_done_iff_converged_and_healthy:
  "fst (checkUpgradeProgress w) =
     (list_all (groupConverged w) (spec_MarkLogicGroups (cluster w)) \<and>
      fst (fst (performClusterHealthCheck w)), None) \<and>
   snd (checkUpgradeProgress w) =
     (if list_all (groupConverged w) (spec_MarkLogicGroups (cluster w))
      then snd (performClusterHealthCheck w) else w) \<and>
   fst (CheckUpgradeStatus w) =
     (list_all (groupConverged w) (spec_MarkLogicGroups (cluster w)), None) \<and>
   (\<not> list_all (groupConverged w) (spec_MarkLogicGroups (cluster w)) \<longrightarrow>
    handleInProgressState h annotations w =
      ((\<lparr>Requeue = False, RequeueAfter = Minute * 2\<rparr>, None), w)) \<and>
   (\<not> list_all (groupConverged w) (spec_MarkLogicGroups (cluster w)) \<and>
    lookup (cl_Annotations (cluster w)) AnnotationUpgradeState = UpgradeStateInProgress \<and>
    lookup (cl_Annotations (cluster w)) AnnotationCancelUpgrade \<noteq> ''true'' \<longrightarrow>
    HandleUpgradeWorkflow h w = ((\<lparr>Requeue = False, RequeueAfter = Minute * 2\<rparr>, None), w))"
proof (intro conjI impI)
  show "fst (checkUpgradeProgress w) =
     (list_all (groupConverged w) (spec_MarkLogicGroups (cluster w)) \<and>
      fst (fst (performClusterHealthCheck w)), None)"
    by (simp add: checkUpgradeProgress_eq performClusterHealthCheck_def)
  show "snd (checkUpgradeProgress w) =
     (if list_all (groupConverged w) (spec_MarkLogicGroups (cluster w))
      then snd (performClusterHealthCheck w) else w)"
    by (simp add: checkUpgradeProgress_eq)
  show "fst (CheckUpgradeStatus w) =
     (list_all (groupConverged w) (spec_MarkLogicGroups (cluster w)), None)"
    by (simp add: CheckUpgradeStatus_def checkUpgradeProgress_eq)
next
  assume "\<not> list_all (groupConverged w) (spec_MarkLogicGroups (cluster w))"
  then show "handleInProgressState h annotations w =
      ((\<lparr>Requeue = False, RequeueAfter = Minute * 2\<rparr>, None), w)"
    by (rule handleInProgress_waiting)
next
  assume a: "\<not> list_all (groupConverged w) (spec_MarkLogicGroups (cluster w)) \<and>
    lookup (cl_Annotations (cluster w)) AnnotationUpgradeState = UpgradeStateInProgress \<and>
    lookup (cl_Annotations (cluster w)) AnnotationCancelUpgrade \<noteq> ''true''"
  then have "effectiveState (cluster w) \<noteq> UpgradeStateIdle"
    by (simp add: effectiveState_def)
  then show "HandleUpgradeWorkflow h w = ((\<lparr>Requeue = False, RequeueAfter = Minute * 2\<rparr>, None), w)"
    using a by (simp add: HW_not_idle dispatch_def handleInProgress_waiting)
qed

theorem rollout_done_iff_converged_and_healthy_witness:
  "\<not> list_all (groupConverged (demoWorld [AnnotationUpgradeState \<mapsto> UpgradeStateInProgress] ''11.4.0'' ''11.3.0'' []))
        (spec_MarkLogicGroups (cluster (demoWorld [AnnotationUpgradeState \<mapsto> UpgradeStateInProgress] ''11.4.0'' ''11.3.0'' []))) \<and>
   HandleUpgradeWorkflow demoHandler (demoWorld [AnnotationUpgradeState \<mapsto> UpgradeStateInProgress] ''11.4.0'' ''11.3.0'' []) =
     ((\<lparr>Requeue = False, RequeueAfter = Minute * 2\<rparr>, None),
      demoWorld [AnnotationUpgradeState \<mapsto> UpgradeStateInProgress] ''11.4.0'' ''11.3.0'' [])"
  using rollout_done_iff_converged_and_healthy [of "demoWorld [AnnotationUpgradeState \<mapsto> UpgradeStateInProgress] ''11.4.0'' ''11.3.0'' []" demoHandler Map.empty]
  by (simp add: demoWorld_def demoCluster_def groupConverged_def lookup_def)

section \<open>Properties of the orchestrator\<close>

lemma stageUpgradeState_fields [simp]:
  "faults (stageUpgradeState h s r w) = faults w"
  "stored (stageUpgradeState h s r w) = stored w"
  "events (stageUpgradeState h s r w) = events w"
  "writesSucceed (stageUpgradeState h s r w) = writesSucceed w"
  by (simp_all add: stageUpgradeState_def Let_def writesSucceed_def)

lemma stageCleanup_fields [simp]:
  "faults (stageCleanup s w) = faults w"
  "stored (stageCleanup s w) = stored w"
  "events (stageCleanup s w) = events w"
  "writesSucceed (stageCleanup s w) = writesSucceed w"
  by (simp_all add: stageCleanup_def Let_def writesSucceed_def)

lemma stageCleanup_annotations:
  "cl_Annotations (cluster (stageCleanup s w)) =
     (cl_Annotations (cluster w))
       (AnnotationUpgradeState \<mapsto> s, AnnotationTriggerUpgrade := None,
        AnnotationProceedUpgrade := None, AnnotationCancelUpgrade := None)"
  by (simp add: stageCleanup_def Let_def)

lemma stageUpgradeState_annotations_None:
  "cl_Annotations (cluster (stageUpgradeState h s None w)) =
     (cl_Annotations (cluster w))(AnnotationUpgradeState \<mapsto> s)"
  by (simp add: stageUpgradeState_def Let_def)

lemma Recorder_Event_fields [simp]:
  "faults (Recorder_Event t r m w) = faults w"
  "stored (Recorder_Event t r m w) = stored w"
  "cluster (Recorder_Event t r m w) = cluster w"
  "clock (Recorder_Event t r m w) = clock w"
  "statefulSets (Recorder_Event t r m w) = statefulSets w"
  "writesSucceed (Recorder_Event t r m w) = writesSucceed w"
  by (simp_all add: Recorder_Event_def writesSucceed_def)

lemma Sleep_fields [simp]:
  "faults (Sleep d w) = faults w"
  "stored (Sleep d w) = stored w"
  "cluster (Sleep d w) = cluster w"
  "events (Sleep d w) = events w"
  "writesSucceed (Sleep d w) = writesSucceed w"
  by (simp_all add: Sleep_def writesSucceed_def)

lemma StartRollingUpgrade_fields [simp]:
  "fst (StartRollingUpgrade w) = None"
  "faults (snd (StartRollingUpgrade w)) = faults w"
  "stored (snd (StartRollingUpgrade w)) = stored w"
  "cluster (snd (StartRollingUpgrade w)) = cluster w"
  "writesSucceed (snd (StartRollingUpgrade w)) = writesSucceed w"
  by (simp_all add: StartRollingUpgrade_def performRollingUpgrade_def)

lemma cleanup_ok:
  "writesSucceed w \<Longrightarrow>
   cleanupUpgradeAnnotations s w =
     ((NoRequeue, None),
      (stageCleanup s w)
        \<lparr>faults := tl (tl (faults w)),
         stored := (cluster (stageCleanup s w))\<lparr>cl_Status := cl_Status (stored w)\<rparr>,
         cluster := (cluster (stageCleanup s w))\<lparr>cl_Status := cl_Status (stored w)\<rparr>\<rparr>)"
  by (simp add: cleanupUpgradeAnnotations_def commit_ok)

lemma update_ok:
  "writesSucceed w \<Longrightarrow>
   updateUpgradeStateWithResults h s r w =
     ((NoRequeue, None),
      (stageUpgradeState h s r w)
        \<lparr>faults := tl (tl (faults w)),
         stored := (cluster (stageUpgradeState h s r w))\<lparr>cl_Status := cl_Status (stored w)\<rparr>,
         cluster := (cluster (stageUpgradeState h s r w))\<lparr>cl_Status := cl_Status (stored w)\<rparr>\<rparr>)"
  by (simp add: updateUpgradeStateWithResults_def commit_ok)

lemma handleCancellation_accept:
  "writesSucceed w \<Longrightarrow> lookup a AnnotationUpgradeState \<noteq> UpgradeStateInProgress \<Longrightarrow>
   fst (handleCancellation h a w) = (NoRequeue, None) \<and>
   cl_Annotations (stored (snd (handleCancellation h a w))) =
     (cl_Annotations (cluster w))
       (AnnotationUpgradeState \<mapsto> UpgradeStateCancelled, AnnotationTriggerUpgrade := None,
        AnnotationProceedUpgrade := None, AnnotationCancelUpgrade := None)"
  by (simp add: handleCancellation_def Let_def cleanup_ok stageCleanup_annotations)

lemma handleCancellation_refuse:
  "lookup a AnnotationUpgradeState = UpgradeStateInProgress \<Longrightarrow>
   handleCancellation h a w =
     ((NoRequeue, None),
      Recorder_Event EventTypeWarning ''CancellationDenied''
        ''Cannot cancel upgrade while rolling upgrade is in progress'' w)"
  by (simp add: handleCancellation_def Let_def)

lemma HW_not_idle':
  "lookup (cl_Annotations (cluster w)) AnnotationUpgradeState \<noteq> [] \<Longrightarrow>
   lookup (cl_Annotations (cluster w)) AnnotationUpgradeState \<noteq> UpgradeStateIdle \<Longrightarrow>
   HandleUpgradeWorkflow h w =
     (if lookup (cl_Annotations (cluster w)) AnnotationCancelUpgrade = ''true''
      then handleCancellation h (cl_Annotations (cluster w)) w
      else dispatch h (lookup (cl_Annotations (cluster w)) AnnotationUpgradeState)
             (cl_Annotations (cluster w)) w)"
  by (rule HW_not_idle) (simp add: effectiveState_def)

lemma handleWaiting_proceed_eq:
  "lookup a AnnotationProceedUpgrade = ''true'' \<Longrightarrow>
   handleWaitingUserState h a w =
     updateUpgradeState h UpgradeStateInProgress
       (snd (StartRollingUpgrade
               (Recorder_Event EventTypeNormal ''UpgradeApproved''
                  ''User approved upgrade, starting rolling upgrade'' w)))"
  by (simp add: handleWaitingUserState_def StartRollingUpgrade_def performRollingUpgrade_def)

lemma handleWaiting_proceed:
  "writesSucceed w \<Longrightarrow> lookup a AnnotationProceedUpgrade = ''true'' \<Longrightarrow>
   fst (handleWaitingUserState h a w) = (NoRequeue, None) \<and>
   cl_Annotations (stored (snd (handleWaitingUserState h a w))) =
     (cl_Annotations (cluster w))(AnnotationUpgradeState \<mapsto> UpgradeStateInProgress)"
  by (simp add: handleWaiting_proceed_eq updateUpgradeState_def update_ok
      stageUpgradeState_annotations_None)

lemma StartRollingUpgrade_events:
  "events (snd (StartRollingUpgrade w)) =
     events w @
     [\<lparr>ev_Type = EventTypeNormal, ev_Reason = ''RollingUpgradeStarted'',
       ev_Message = ''Rolling upgrade initiated''\<rparr>,
      \<lparr>ev_Type = EventTypeNormal, ev_Reason = ''UpgradeProgress'',
       ev_Message = ''Updating cluster specification''\<rparr>,
      \<lparr>ev_Type = EventTypeNormal, ev_Reason = ''UpgradeProgress'',
       ev_Message = ''Rolling out new image to StatefulSets''\<rparr>,
      \<lparr>ev_Type = EventTypeNormal, ev_Reason = ''UpgradeProgress'',
       ev_Message = ''Waiting for pod updates''\<rparr>,
      \<lparr>ev_Type = EventTypeNormal, ev_Reason = ''UpgradeProgress'',
       ev_Message = ''Validating cluster health''\<rparr>,
      \<lparr>ev_Type = EventTypeNormal, ev_Reason = ''UpgradeProgress'',
       ev_Message = ''Finalizing upgrade configuration''\<rparr>]"
  by (simp add: StartRollingUpgrade_def performRollingUpgrade_def Recorder_Event_def Sleep_def)

lemma demoWorld_fields [simp]:
  "cl_Annotations (cluster (demoWorld a d c f)) = a"
  "cl_Annotations (stored (demoWorld a d c f)) = a"
  "faults (demoWorld a d c f) = f"
  "events (demoWorld a d c f) = []"
  "clock (demoWorld a d c f) = 0"
  "spec_Image (cluster (demoWorld a d c f)) = d"
  "CurrentImage (cl_Status (cluster (demoWorld a d c f))) = c"
  "stored (demoWorld a d c f) = cluster (demoWorld a d c f)"
  by (simp_all add: demoWorld_def demoCluster_def)

lemma writesSucceed_demoWorld [simp]: "writesSucceed (demoWorld a d c [])"
  by (simp add: writesSucceed_def)

subsection \<open>The approval gate\<close>

text \<open>
  Claim C1, as amended. In state \<open>WaitingForUserApproval\<close> with the cancel signal
  not set, the handler never reads the persisted report: with the proceed signal set and
  the store writes succeeding, the invocation starts the rollout and the stored state
  becomes \<open>UpgradeInProgress\<close>, whatever the report holds; without the proceed
  signal nothing changes and the invocation asks for a requeue after five minutes.
\<close>

theorem approval_proceeds_whatever_the_report:
  assumes "lookup (cl_Annotations (cluster w)) AnnotationUpgradeState = UpgradeStateWaitingUser"
    and "lookup (cl_Annotations (cluster w)) AnnotationCancelUpgrade \<noteq> ''true''"
  shows "(lookup (cl_Annotations (cluster w)) AnnotationProceedUpgrade = ''true'' \<and>
          writesSucceed w \<longrightarrow>
            fst (HandleUpgradeWorkflow h w) = (NoRequeue, None) \<and>
            cl_Annotations (stored (snd (HandleUpgradeWorkflow h w))) =
              (cl_Annotations (cluster w))(AnnotationUpgradeState \<mapsto> UpgradeStateInProgress) \<and>
            \<lparr>ev_Type = EventTypeNormal, ev_Reason = ''RollingUpgradeStarted'',
             ev_Message = ''Rolling upgrade initiated''\<rparr>
              \<in> set (events (snd (HandleUpgradeWorkflow h w)))) \<and>
         (lookup (cl_Annotations (cluster w)) AnnotationProceedUpgrade \<noteq> ''true'' \<longrightarrow>
            HandleUpgradeWorkflow h w =
              ((\<lparr>Requeue = False, RequeueAfter = Minute * 5\<rparr>, None), w))"
proof -
  have hw: "HandleUpgradeWorkflow h w = handleWaitingUserState h (cl_Annotations (cluster w)) w"
    using assms by (simp add: HW_not_idle' dispatch_def)
  show ?thesis
  proof (intro conjI impI)
    assume p: "lookup (cl_Annotations (cluster w)) AnnotationProceedUpgrade = ''true'' \<and>
          writesSucceed w"
    then show "fst (HandleUpgradeWorkflow h w) = (NoRequeue, None)"
      and "cl_Annotations (stored (snd (HandleUpgradeWorkflow h w))) =
              (cl_Annotations (cluster w))(AnnotationUpgradeState \<mapsto> UpgradeStateInProgress)"
      unfolding hw using handleWaiting_proceed [of w "cl_Annotations (cluster w)" h] by simp_all
    from p show "\<lparr>ev_Type = EventTypeNormal, ev_Reason = ''RollingUpgradeStarted'',
             ev_Message = ''Rolling upgrade initiated''\<rparr>
              \<in> set (events (snd (HandleUpgradeWorkflow h w)))"
      unfolding hw
      by (simp add: handleWaiting_proceed_eq updateUpgradeState_def update_ok
          StartRollingUpgrade_events)
  next
    assume "lookup (cl_Annotations (cluster w)) AnnotationProceedUpgrade \<noteq> ''true''"
    then show "HandleUpgradeWorkflow h w =
              ((\<lparr>Requeue = False, RequeueAfter = Minute * 5\<rparr>, None), w)"
      unfolding hw by (simp add: handleWaitingUserState_def)
  qed
qed

text \<open>
  The claim as stated fails: with a stored report that holds a \<open>FAIL\<close> result and
  the proceed signal set (there is no force variant), the state leaves
  \<open>WaitingForUserApproval\<close> for \<open>UpgradeInProgress\<close>.
\<close>

theorem failed_report_does_not_block_approval:
  "lookup (cl_Annotations (stored approvedDespiteFailure)) AnnotationUpgradeState = UpgradeStateWaitingUser \<and>
   lookup (cl_Annotations (stored approvedDespiteFailure)) AnnotationProceedUpgrade = ''true'' \<and>
   lookup (cl_Annotations (stored approvedDespiteFailure)) AnnotationPrecheckResults = failedReportJSON \<and>
   lookup (cl_Annotations (stored (snd (HandleUpgradeWorkflow demoHandler approvedDespiteFailure))))
     AnnotationUpgradeState = UpgradeStateInProgress \<and>
   lookup (cl_Annotations (stored (snd (HandleUpgradeWorkflow demoHandler approvedDespiteFailure))))
     AnnotationUpgradeState \<noteq> UpgradeStateWaitingUser"
proof -
  let ?w = approvedDespiteFailure
  have s: "lookup (cl_Annotations (cluster ?w)) AnnotationUpgradeState = UpgradeStateWaitingUser"
    and p: "lookup (cl_Annotations (cluster ?w)) AnnotationProceedUpgrade = ''true''"
    and c: "lookup (cl_Annotations (cluster ?w)) AnnotationCancelUpgrade \<noteq> ''true''"
    and r: "lookup (cl_Annotations (cluster ?w)) AnnotationPrecheckResults = failedReportJSON"
    and ws: "writesSucceed ?w"
    by (simp_all add: approvedDespiteFailure_def lookup_def)
  have hw: "HandleUpgradeWorkflow demoHandler ?w =
      handleWaitingUserState demoHandler (cl_Annotations (cluster ?w)) ?w"
    using s c by (simp add: HW_not_idle' dispatch_def)
  have "lookup (cl_Annotations (stored (snd (HandleUpgradeWorkflow demoHandler ?w))))
     AnnotationUpgradeState = UpgradeStateInProgress"
    unfolding hw using handleWaiting_proceed [OF ws p, of demoHandler]
    by (simp add: lookup_def)
  with s p r show ?thesis by (simp add: approvedDespiteFailure_def)
qed

theorem approval_proceeds_whatever_the_report_witness:
  "fst (HandleUpgradeWorkflow demoHandler approvedDespiteFailure) = (NoRequeue, None) \<and>
   cl_Annotations (stored (snd (HandleUpgradeWorkflow demoHandler approvedDespiteFailure))) =
     (cl_Annotations (cluster approvedDespiteFailure))
       (AnnotationUpgradeState \<mapsto> UpgradeStateInProgress) \<and>
   HandleUpgradeWorkflow demoHandler
     (demoWorld [AnnotationUpgradeState \<mapsto> UpgradeStateWaitingUser] ''11.4.0'' ''11.3.0'' []) =
     ((\<lparr>Requeue = False, RequeueAfter = Minute * 5\<rparr>, None),
      demoWorld [AnnotationUpgradeState \<mapsto> UpgradeStateWaitingUser] ''11.4.0'' ''11.3.0'' [])"
  using approval_proceeds_whatever_the_report [of approvedDespiteFailure demoHandler]
    approval_proceeds_whatever_the_report [of "demoWorld [AnnotationUpgradeState \<mapsto> UpgradeStateWaitingUser] ''11.4.0'' ''11.3.0'' []" demoHandler]
  by (simp add: approvedDespiteFailure_def lookup_def)

subsection \<open>Idle clusters\<close>

lemma HW_idle_undeployed:
  "effectiveState (cluster w) = UpgradeStateIdle \<Longrightarrow>
   \<not> isClusterDeployed (clock w) (cluster w) \<Longrightarrow>
   cl_Annotations (stored (snd (HandleUpgradeWorkflow h w))) = cl_Annotations (stored w)"
  by (auto simp: HandleUpgradeWorkflow_def effectiveState_def Let_def
      updateStatusAfterDeployment_def client_Status_Update_def nextFault_def setCurrentImage_def
      split: if_splits prod.splits option.splits list.splits)

lemma HW_idle_undeployed_memory:
  "effectiveState (cluster w) = UpgradeStateIdle \<Longrightarrow>
   \<not> isClusterDeployed (clock w) (cluster w) \<Longrightarrow>
   stored w = cluster w \<Longrightarrow>
   cl_Annotations (cluster (snd (HandleUpgradeWorkflow h w))) = cl_Annotations (cluster w)"
  by (auto simp: HandleUpgradeWorkflow_def effectiveState_def Let_def
      updateStatusAfterDeployment_def client_Status_Update_def nextFault_def setCurrentImage_def
      split: if_splits prod.splits option.splits list.splits)

lemma HW_idle_quiet:
  "effectiveState (cluster w) = UpgradeStateIdle \<Longrightarrow>
   isClusterDeployed (clock w) (cluster w) \<Longrightarrow>
   \<not> detectImageChanges (cluster w) \<Longrightarrow>
   lookup (cl_Annotations (cluster w)) AnnotationTriggerUpgrade \<noteq> ''true'' \<Longrightarrow>
   HandleUpgradeWorkflow h w = ((NoRequeue, None), w)"
  by (auto simp: HandleUpgradeWorkflow_def effectiveState_def Let_def autoTrigger_def
      split: if_splits)

lemma HW_idle_triggered:
  "effectiveState (cluster w) = UpgradeStateIdle \<Longrightarrow>
   isClusterDeployed (clock w) (cluster w) \<Longrightarrow>
   \<not> detectImageChanges (cluster w) \<Longrightarrow>
   lookup (cl_Annotations (cluster w)) AnnotationTriggerUpgrade = ''true'' \<Longrightarrow>
   HandleUpgradeWorkflow h w =
     (if lookup (cl_Annotations (cluster w)) AnnotationCancelUpgrade = ''true''
      then handleCancellation h (cl_Annotations (cluster w)) w
      else handleIdleState h (cl_Annotations (cluster w)) w)"
  by (auto simp: HandleUpgradeWorkflow_def effectiveState_def Let_def autoTrigger_def dispatch_def
      split: if_splits)

lemma withTrigger_fields [simp]:
  "cl_Annotations (cluster (withTrigger w)) =
     (cl_Annotations (cluster w))(AnnotationTriggerUpgrade \<mapsto> ''true'')"
  "writesSucceed w \<Longrightarrow> writesSucceed (withTrigger w)"
  "events (withTrigger w) = events w"
  by (cases "faults w"; simp add: withTrigger_def Let_def writesSucceed_def)+

lemma lookup_upd [simp]:
  "lookup (a(k \<mapsto> v)) k' = (if k' = k then v else lookup a k')"
  "lookup (a(k := None)) k' = (if k' = k then [] else lookup a k')"
  by (simp_all add: lookup_def)

lemma HW_idle_drift:
  "effectiveState (cluster w) = UpgradeStateIdle \<Longrightarrow>
   isClusterDeployed (clock w) (cluster w) \<Longrightarrow>
   detectImageChanges (cluster w) \<Longrightarrow>
   writesSucceed w \<Longrightarrow>
   HandleUpgradeWorkflow h w =
     (if lookup (cl_Annotations (cluster w)) AnnotationCancelUpgrade = ''true''
      then handleCancellation h (cl_Annotations (cluster (withTrigger w))) (withTrigger w)
      else handleIdleState h (cl_Annotations (cluster (withTrigger w))) (withTrigger w))"
  by (auto simp: HandleUpgradeWorkflow_def effectiveState_def Let_def autoTrigger_def dispatch_def
      client_Update_ok withTrigger_def
      split: if_splits)

subsection \<open>Cancellation\<close>

lemma cancel_accept_annotations:
  "(a(AnnotationTriggerUpgrade \<mapsto> ''true''))
       (AnnotationUpgradeState \<mapsto> s, AnnotationTriggerUpgrade := None,
        AnnotationProceedUpgrade := None, AnnotationCancelUpgrade := None) =
   a(AnnotationUpgradeState \<mapsto> s, AnnotationTriggerUpgrade := None,
        AnnotationProceedUpgrade := None, AnnotationCancelUpgrade := None)"
  by (rule ext) simp

text \<open>
  Claim C2, as amended. With the cancel signal set at the start of an invocation and the
  store writes succeeding: from \<open>UpgradeInProgress\<close> the cancellation is refused,
  the only effect being one warning event; from any other state it is accepted (the
  stored state becomes \<open>UpgradeCancelled\<close> and the three control signals are
  removed) provided the invocation reaches the cancellation check, which it does from
  every state but \<open>Idle\<close>, and from \<open>Idle\<close> when the cluster is deployed and
  an upgrade is triggered (by the trigger signal or by an image change). An idle cluster
  that is not deployed, or has neither trigger nor image change, returns before the check:
  its stored annotations, the cancel signal among them, stay as they are.
\<close>

theorem cancellation_by_state:
  assumes cancel: "lookup (cl_Annotations (cluster w)) AnnotationCancelUpgrade = ''true''"
    and ws: "writesSucceed w"
    and fresh: "stored w = cluster w"
  shows
   "(lookup (cl_Annotations (cluster w)) AnnotationUpgradeState = UpgradeStateInProgress \<longrightarrow>
       HandleUpgradeWorkflow h w =
         ((NoRequeue, None),
          Recorder_Event EventTypeWarning ''CancellationDenied''
            ''Cannot cancel upgrade while rolling upgrade is in progress'' w)) \<and>
    (lookup (cl_Annotations (cluster w)) AnnotationUpgradeState \<noteq> UpgradeStateInProgress \<and>
     (effectiveState (cluster w) \<noteq> UpgradeStateIdle \<or>
      isClusterDeployed (clock w) (cluster w) \<and>
      (lookup (cl_Annotations (cluster w)) AnnotationTriggerUpgrade = ''true'' \<or>
       detectImageChanges (cluster w))) \<longrightarrow>
       fst (HandleUpgradeWorkflow h w) = (NoRequeue, None) \<and>
       cl_Annotations (stored (snd (HandleUpgradeWorkflow h w))) =
         (cl_Annotations (stored w))
           (AnnotationUpgradeState \<mapsto> UpgradeStateCancelled, AnnotationTriggerUpgrade := None,
            AnnotationProceedUpgrade := None, AnnotationCancelUpgrade := None)) \<and>
    (effectiveState (cluster w) = UpgradeStateIdle \<and>
     (\<not> isClusterDeployed (clock w) (cluster w) \<or>
      lookup (cl_Annotations (cluster w)) AnnotationTriggerUpgrade \<noteq> ''true'' \<and>
      \<not> detectImageChanges (cluster w)) \<longrightarrow>
       cl_Annotations (stored (snd (HandleUpgradeWorkflow h w))) = cl_Annotations (stored w))"
proof (intro conjI impI)
  assume s: "lookup (cl_Annotations (cluster w)) AnnotationUpgradeState = UpgradeStateInProgress"
  then have "effectiveState (cluster w) \<noteq> UpgradeStateIdle"
    by (simp add: effectiveState_def)
  then show "HandleUpgradeWorkflow h w =
         ((NoRequeue, None),
          Recorder_Event EventTypeWarning ''CancellationDenied''
            ''Cannot cancel upgrade while rolling upgrade is in progress'' w)"
    using s cancel by (simp add: HW_not_idle handleCancellation_refuse)
next
  assume a: "lookup (cl_Annotations (cluster w)) AnnotationUpgradeState \<noteq> UpgradeStateInProgress \<and>
     (effectiveState (cluster w) \<noteq> UpgradeStateIdle \<or>
      isClusterDeployed (clock w) (cluster w) \<and>
      (lookup (cl_Annotations (cluster w)) AnnotationTriggerUpgrade = ''true'' \<or>
       detectImageChanges (cluster w)))"
  then have nip: "lookup (cl_Annotations (cluster w)) AnnotationUpgradeState \<noteq> UpgradeStateInProgress"
    by simp
  have "fst (HandleUpgradeWorkflow h w) = (NoRequeue, None) \<and>
       cl_Annotations (stored (snd (HandleUpgradeWorkflow h w))) =
         (cl_Annotations (cluster w))
           (AnnotationUpgradeState \<mapsto> UpgradeStateCancelled, AnnotationTriggerUpgrade := None,
            AnnotationProceedUpgrade := None, AnnotationCancelUpgrade := None)"
  proof (cases "effectiveState (cluster w) = UpgradeStateIdle")
    case False
    then show ?thesis
      using cancel handleCancellation_accept [OF ws nip, of h]
      by (simp add: HW_not_idle)
  next
    case idle: True
    with a have dep: "isClusterDeployed (clock w) (cluster w)" by simp
    show ?thesis
    proof (cases "detectImageChanges (cluster w)")
      case True
      have "lookup (cl_Annotations (cluster (withTrigger w))) AnnotationUpgradeState
              \<noteq> UpgradeStateInProgress"
        using nip by simp
      from handleCancellation_accept [OF withTrigger_fields(2) [OF ws] this, of h]
      show ?thesis
        using cancel by (simp add: HW_idle_drift [OF idle dep True ws] cancel_accept_annotations)
    next
      case False
      with a idle have "lookup (cl_Annotations (cluster w)) AnnotationTriggerUpgrade = ''true''"
        by simp
      then show ?thesis
        using cancel handleCancellation_accept [OF ws nip, of h]
        by (simp add: HW_idle_triggered [OF idle dep False])
    qed
  qed
  then show "fst (HandleUpgradeWorkflow h w) = (NoRequeue, None)"
    and "cl_Annotations (stored (snd (HandleUpgradeWorkflow h w))) =
         (cl_Annotations (stored w))
           (AnnotationUpgradeState \<mapsto> UpgradeStateCancelled, AnnotationTriggerUpgrade := None,
            AnnotationProceedUpgrade := None, AnnotationCancelUpgrade := None)"
    by (simp_all add: fresh)
next
  assume a: "effectiveState (cluster w) = UpgradeStateIdle \<and>
     (\<not> isClusterDeployed (clock w) (cluster w) \<or>
      lookup (cl_Annotations (cluster w)) AnnotationTriggerUpgrade \<noteq> ''true'' \<and>
      \<not> detectImageChanges (cluster w))"
  show "cl_Annotations (stored (snd (HandleUpgradeWorkflow h w))) = cl_Annotations (stored w)"
  proof (cases "isClusterDeployed (clock w) (cluster w)")
    case False
    with a show ?thesis by (simp add: HW_idle_undeployed)
  next
    case True
    with a show ?thesis by (simp add: HW_idle_quiet)
  qed
qed

lemma lookup_empty [simp]: "lookup Map.empty k = []"
  by (simp add: lookup_def)

lemma isClusterDeployed_demo [simp]:
  "c \<noteq> [] \<Longrightarrow> isClusterDeployed t (cluster (demoWorld a d c f))"
  by (simp add: isClusterDeployed_def)

lemma detectImageChanges_demo [simp]:
  "detectImageChanges (cluster (demoWorld a d c f)) = (c \<noteq> [] \<and> c \<noteq> d)"
  by (auto simp: detectImageChanges_def Let_def)

lemma effectiveState_demo [simp]:
  "effectiveState (cluster (demoWorld a d c f)) =
     (if lookup a AnnotationUpgradeState = [] then UpgradeStateIdle
      else lookup a AnnotationUpgradeState)"
  by (simp add: effectiveState_def)

text \<open>
  The claim as stated fails for \<open>Idle\<close>: the invocation returns before the
  cancellation check, the state does not become \<open>UpgradeCancelled\<close> and the cancel
  signal is not cleared.
\<close>

theorem idle_cancel_not_accepted:
  "lookup (cl_Annotations (stored cancelledWhileIdle)) AnnotationCancelUpgrade = ''true'' \<and>
   lookup (cl_Annotations (stored cancelledWhileIdle)) AnnotationUpgradeState = UpgradeStateIdle \<and>
   HandleUpgradeWorkflow demoHandler cancelledWhileIdle = ((NoRequeue, None), cancelledWhileIdle) \<and>
   lookup (cl_Annotations (stored (snd (HandleUpgradeWorkflow demoHandler cancelledWhileIdle))))
     AnnotationUpgradeState \<noteq> UpgradeStateCancelled \<and>
   lookup (cl_Annotations (stored (snd (HandleUpgradeWorkflow demoHandler cancelledWhileIdle))))
     AnnotationCancelUpgrade = ''true''"
proof -
  have "HandleUpgradeWorkflow demoHandler cancelledWhileIdle = ((NoRequeue, None), cancelledWhileIdle)"
    unfolding cancelledWhileIdle_def by (rule HW_idle_quiet) simp_all
  then show ?thesis by (simp add: cancelledWhileIdle_def)
qed

theorem cancellation_by_state_witness:
  "HandleUpgradeWorkflow demoHandler
     (demoWorld [AnnotationUpgradeState \<mapsto> UpgradeStateInProgress, AnnotationCancelUpgrade \<mapsto> ''true'']
        ''11.4.0'' ''11.3.0'' []) =
     ((NoRequeue, None),
      Recorder_Event EventTypeWarning ''CancellationDenied''
        ''Cannot cancel upgrade while rolling upgrade is in progress''
        (demoWorld [AnnotationUpgradeState \<mapsto> UpgradeStateInProgress, AnnotationCancelUpgrade \<mapsto> ''true'']
           ''11.4.0'' ''11.3.0'' [])) \<and>
   lookup (cl_Annotations (stored (snd (HandleUpgradeWorkflow demoHandler
     (demoWorld [AnnotationUpgradeState \<mapsto> UpgradeStateWaitingUser, AnnotationCancelUpgrade \<mapsto> ''true'']
        ''11.4.0'' ''11.3.0'' []))))) AnnotationUpgradeState = UpgradeStateCancelled \<and>
   cl_Annotations (stored (snd (HandleUpgradeWorkflow demoHandler cancelledWhileIdle))) =
     cl_Annotations (stored cancelledWhileIdle)"
  using
    cancellation_by_state [of "demoWorld [AnnotationUpgradeState \<mapsto> UpgradeStateInProgress, AnnotationCancelUpgrade \<mapsto> ''true'']
        ''11.4.0'' ''11.3.0'' []" demoHandler]
    cancellation_by_state [of "demoWorld [AnnotationUpgradeState \<mapsto> UpgradeStateWaitingUser, AnnotationCancelUpgrade \<mapsto> ''true'']
        ''11.4.0'' ''11.3.0'' []" demoHandler]
    cancellation_by_state [of cancelledWhileIdle demoHandler]
  by (simp add: cancelledWhileIdle_def)

lemma handleIdle_triggered:
  "writesSucceed w \<Longrightarrow> lookup a AnnotationTriggerUpgrade = ''true'' \<Longrightarrow>
   fst (handleIdleState h a w) = (NoRequeue, None) \<and>
   cl_Annotations (stored (snd (handleIdleState h a w))) =
     (cl_Annotations (cluster w))(AnnotationUpgradeState \<mapsto> UpgradeStatePrecheckStart)"
  by (simp add: handleIdleState_def StartPrechecks_def updateUpgradeState_def update_ok
      stageUpgradeState_annotations_None)

subsection \<open>Terminal states\<close>

text \<open>
  Claim C7, as amended. From a terminal state, with the cancel signal not set and the
  store writes succeeding, the invocation returns no error and the stored annotations
  are the previous ones with the state set to \<open>Idle\<close> and the three control
  signals removed: every other annotation, the stored report among them, is unchanged.
\<close>

theorem terminal_state_cleanup:
  assumes "lookup (cl_Annotations (cluster w)) AnnotationUpgradeState = UpgradeStateCompleted \<or>
           lookup (cl_Annotations (cluster w)) AnnotationUpgradeState = UpgradeStateFailed \<or>
           lookup (cl_Annotations (cluster w)) AnnotationUpgradeState = UpgradeStateCancelled"
    and "lookup (cl_Annotations (cluster w)) AnnotationCancelUpgrade \<noteq> ''true''"
    and "writesSucceed w"
    and "stored w = cluster w"
  shows "fst (HandleUpgradeWorkflow h w) = (NoRequeue, None) \<and>
         cl_Annotations (stored (snd (HandleUpgradeWorkflow h w))) =
           (cl_Annotations (stored w))
             (AnnotationUpgradeState \<mapsto> UpgradeStateIdle, AnnotationTriggerUpgrade := None,
              AnnotationProceedUpgrade := None, AnnotationCancelUpgrade := None) \<and>
         cl_Annotations (stored (snd (HandleUpgradeWorkflow h w))) AnnotationPrecheckResults =
           cl_Annotations (stored w) AnnotationPrecheckResults"
proof -
  have "HandleUpgradeWorkflow h w = cleanupUpgradeAnnotations UpgradeStateIdle w"
    using assms(1,2) by (auto simp: HW_not_idle' dispatch_def)
  then show ?thesis
    using assms(3,4) by (simp add: cleanup_ok stageCleanup_annotations)
qed

text \<open>
  The claim as stated fails when the cancel signal is set: cancellation is checked before
  the dispatch on the state, so a completed attempt becomes \<open>UpgradeCancelled\<close>
  instead of \<open>Idle\<close>.
\<close>

theorem terminal_state_with_cancel_not_idle:
  "lookup (cl_Annotations (stored cancelledAfterCompletion)) AnnotationUpgradeState =
     UpgradeStateCompleted \<and>
   lookup (cl_Annotations (stored (snd (HandleUpgradeWorkflow demoHandler cancelledAfterCompletion))))
     AnnotationUpgradeState = UpgradeStateCancelled \<and>
   lookup (cl_Annotations (stored (snd (HandleUpgradeWorkflow demoHandler cancelledAfterCompletion))))
     AnnotationUpgradeState \<noteq> UpgradeStateIdle"
proof -
  let ?w = cancelledAfterCompletion
  have ws: "writesSucceed ?w"
    and nip: "lookup (cl_Annotations (cluster ?w)) AnnotationUpgradeState \<noteq> UpgradeStateInProgress"
    by (simp_all add: cancelledAfterCompletion_def)
  have "HandleUpgradeWorkflow demoHandler ?w =
      handleCancellation demoHandler (cl_Annotations (cluster ?w)) ?w"
    by (simp add: HW_not_idle' cancelledAfterCompletion_def)
  then show ?thesis
    using handleCancellation_accept [OF ws nip, of demoHandler]
    by (simp add: cancelledAfterCompletion_def)
qed

theorem terminal_state_cleanup_witness:
  "cl_Annotations (stored (snd (HandleUpgradeWorkflow demoHandler
     (demoWorld [AnnotationUpgradeState \<mapsto> UpgradeStateCompleted,
                 AnnotationProceedUpgrade \<mapsto> ''true'',
                 AnnotationPrecheckResults \<mapsto> failedReportJSON] ''11.4.0'' ''11.4.0'' [])))) =
     [AnnotationUpgradeState \<mapsto> UpgradeStateIdle, AnnotationPrecheckResults \<mapsto> failedReportJSON]"
  using terminal_state_cleanup [of "demoWorld [AnnotationUpgradeState \<mapsto> UpgradeStateCompleted,
                 AnnotationProceedUpgrade \<mapsto> ''true'',
                 AnnotationPrecheckResults \<mapsto> failedReportJSON] ''11.4.0'' ''11.4.0'' []" demoHandler]
  by (auto simp: fun_eq_iff)

subsection \<open>Unrecognised states\<close>

text \<open>
  Claim C9, as amended. For a state annotation that is not empty and is none of the
  eight recognised values, with the cancel signal not set and the store writes succeeding,
  the invocation returns no error and stores the state \<open>Idle\<close>, all other
  annotations unchanged.
\<close>

theorem unknown_state_reset:
  assumes "lookup (cl_Annotations (cluster w)) AnnotationUpgradeState \<notin>
             {[], UpgradeStateIdle, UpgradeStatePrecheckStart, UpgradeStatePrecheckDone,
              UpgradeStateWaitingUser, UpgradeStateInProgress, UpgradeStateCompleted,
              UpgradeStateFailed, UpgradeStateCancelled}"
    and "lookup (cl_Annotations (cluster w)) AnnotationCancelUpgrade \<noteq> ''true''"
    and "writesSucceed w"
    and "stored w = cluster w"
  shows "fst (HandleUpgradeWorkflow h w) = (NoRequeue, None) \<and>
         cl_Annotations (stored (snd (HandleUpgradeWorkflow h w))) =
           (cl_Annotations (stored w))(AnnotationUpgradeState \<mapsto> UpgradeStateIdle)"
proof -
  have "HandleUpgradeWorkflow h w = updateUpgradeState h UpgradeStateIdle w"
    using assms(1,2) by (simp add: HW_not_idle' dispatch_def)
  then show ?thesis
    using assms(3,4)
    by (simp add: updateUpgradeState_def update_ok stageUpgradeState_annotations_None)
qed

text \<open>
  The claim as stated fails when the cancel signal is set: the declared but never
  dispatched state \<open>UpgradePaused\<close> becomes \<open>UpgradeCancelled\<close>, not
  \<open>Idle\<close>.
\<close>

theorem unknown_state_with_cancel_not_idle:
  "lookup (cl_Annotations (stored pausedAndCancelled)) AnnotationUpgradeState = UpgradeStatePaused \<and>
   lookup (cl_Annotations (stored (snd (HandleUpgradeWorkflow demoHandler pausedAndCancelled))))
     AnnotationUpgradeState = UpgradeStateCancelled \<and>
   lookup (cl_Annotations (stored (snd (HandleUpgradeWorkflow demoHandler pausedAndCancelled))))
     AnnotationUpgradeState \<noteq> UpgradeStateIdle"
proof -
  let ?w = pausedAndCancelled
  have ws: "writesSucceed ?w"
    and nip: "lookup (cl_Annotations (cluster ?w)) AnnotationUpgradeState \<noteq> UpgradeStateInProgress"
    by (simp_all add: pausedAndCancelled_def)
  have "HandleUpgradeWorkflow demoHandler ?w =
      handleCancellation demoHandler (cl_Annotations (cluster ?w)) ?w"
    by (simp add: HW_not_idle' pausedAndCancelled_def)
  then show ?thesis
    using handleCancellation_accept [OF ws nip, of demoHandler]
    by (simp add: pausedAndCancelled_def)
qed

theorem unknown_state_reset_witness:
  "fst (HandleUpgradeWorkflow demoHandler
          (demoWorld [AnnotationUpgradeState \<mapsto> UpgradeStatePaused] ''11.4.0'' ''11.3.0'' [])) =
     (NoRequeue, None) \<and>
   cl_Annotations (stored (snd (HandleUpgradeWorkflow demoHandler
          (demoWorld [AnnotationUpgradeState \<mapsto> UpgradeStatePaused] ''11.4.0'' ''11.3.0'' [])))) =
     [AnnotationUpgradeState \<mapsto> UpgradeStateIdle]"
  using unknown_state_reset [of "demoWorld [AnnotationUpgradeState \<mapsto> UpgradeStatePaused] ''11.4.0'' ''11.3.0'' []" demoHandler]
  by simp

subsection \<open>Automatic trigger\<close>

text \<open>
  Claim C6, as amended. For an idle cluster with no explicit trigger: if a current image
  is recorded and differs from the desired one, the cancel signal is not set and the
  store writes succeed, one invocation stores the trigger signal and the state
  \<open>PrecheckStarted\<close>; if no current image is recorded, the invocation leaves the
  stored annotations as they are (and those in memory, for an object just read from the
  store), so no trigger is set.
\<close>

theorem image_change_triggers_prechecks:
  assumes "effectiveState (cluster w) = UpgradeStateIdle"
    and "lookup (cl_Annotations (cluster w)) AnnotationTriggerUpgrade \<noteq> ''true''"
  shows "(CurrentImage (cl_Status (cluster w)) \<noteq> [] \<and>
          CurrentImage (cl_Status (cluster w)) \<noteq> spec_Image (cluster w) \<and>
          lookup (cl_Annotations (cluster w)) AnnotationCancelUpgrade \<noteq> ''true'' \<and>
          writesSucceed w \<and> stored w = cluster w \<longrightarrow>
            fst (HandleUpgradeWorkflow h w) = (NoRequeue, None) \<and>
            cl_Annotations (stored (snd (HandleUpgradeWorkflow h w))) =
              (cl_Annotations (stored w))
                (AnnotationTriggerUpgrade \<mapsto> ''true'',
                 AnnotationUpgradeState \<mapsto> UpgradeStatePrecheckStart)) \<and>
         (CurrentImage (cl_Status (cluster w)) = [] \<longrightarrow>
            cl_Annotations (stored (snd (HandleUpgradeWorkflow h w))) = cl_Annotations (stored w)) \<and>
         (CurrentImage (cl_Status (cluster w)) = [] \<and> stored w = cluster w \<longrightarrow>
            cl_Annotations (cluster (snd (HandleUpgradeWorkflow h w))) = cl_Annotations (cluster w))"
proof (intro conjI impI)
  assume a: "CurrentImage (cl_Status (cluster w)) \<noteq> [] \<and>
          CurrentImage (cl_Status (cluster w)) \<noteq> spec_Image (cluster w) \<and>
          lookup (cl_Annotations (cluster w)) AnnotationCancelUpgrade \<noteq> ''true'' \<and>
          writesSucceed w \<and> stored w = cluster w"
  then have dep: "isClusterDeployed (clock w) (cluster w)"
    and det: "detectImageChanges (cluster w)"
    and ws: "writesSucceed w"
    by (simp_all add: isClusterDeployed_def detectImageChanges_def Let_def)
  have hw: "HandleUpgradeWorkflow h w =
      handleIdleState h (cl_Annotations (cluster (withTrigger w))) (withTrigger w)"
    using a by (simp add: HW_idle_drift [OF assms(1) dep det ws])
  have t: "lookup (cl_Annotations (cluster (withTrigger w))) AnnotationTriggerUpgrade = ''true''"
    by simp
  from handleIdle_triggered [OF withTrigger_fields(2) [OF ws] t, of h]
  show "fst (HandleUpgradeWorkflow h w) = (NoRequeue, None)"
    and "cl_Annotations (stored (snd (HandleUpgradeWorkflow h w))) =
              (cl_Annotations (stored w))
                (AnnotationTriggerUpgrade \<mapsto> ''true'',
                 AnnotationUpgradeState \<mapsto> UpgradeStatePrecheckStart)"
    using a unfolding hw by simp_all
next
  assume e: "CurrentImage (cl_Status (cluster w)) = []"
  then have nd: "\<not> detectImageChanges (cluster w)"
    by (simp add: detectImageChanges_def)
  show "cl_Annotations (stored (snd (HandleUpgradeWorkflow h w))) = cl_Annotations (stored w)"
    using assms nd HW_idle_undeployed [OF assms(1), of h] HW_idle_quiet [OF assms(1) _ nd assms(2), of h]
    by (cases "isClusterDeployed (clock w) (cluster w)"; simp)
next
  assume e: "CurrentImage (cl_Status (cluster w)) = [] \<and> stored w = cluster w"
  then have nd: "\<not> detectImageChanges (cluster w)"
    by (simp add: detectImageChanges_def)
  show "cl_Annotations (cluster (snd (HandleUpgradeWorkflow h w))) = cl_Annotations (cluster w)"
    using assms nd e HW_idle_undeployed_memory [OF assms(1), of h]
      HW_idle_quiet [OF assms(1) _ nd assms(2), of h]
    by (cases "isClusterDeployed (clock w) (cluster w)"; simp)
qed

text \<open>
  The claim as stated fails when the cancel signal is set: the trigger is set and written,
  then the cancellation is accepted, and the invocation ends in
  \<open>UpgradeCancelled\<close> with the trigger removed.
\<close>

theorem image_change_with_cancel_not_started:
  "effectiveState (stored imageChangedAndCancelled) = UpgradeStateIdle \<and>
   CurrentImage (cl_Status (stored imageChangedAndCancelled)) = ''11.3.0'' \<and>
   spec_Image (stored imageChangedAndCancelled) = ''11.4.0'' \<and>
   lookup (cl_Annotations (stored imageChangedAndCancelled)) AnnotationTriggerUpgrade = [] \<and>
   lookup (cl_Annotations (stored (snd (HandleUpgradeWorkflow demoHandler imageChangedAndCancelled))))
     AnnotationUpgradeState = UpgradeStateCancelled \<and>
   lookup (cl_Annotations (stored (snd (HandleUpgradeWorkflow demoHandler imageChangedAndCancelled))))
     AnnotationUpgradeState \<noteq> UpgradeStatePrecheckStart \<and>
   lookup (cl_Annotations (stored (snd (HandleUpgradeWorkflow demoHandler imageChangedAndCancelled))))
     AnnotationTriggerUpgrade \<noteq> ''true''"
proof -
  let ?w = imageChangedAndCancelled
  have idle: "effectiveState (cluster ?w) = UpgradeStateIdle"
    and dep: "isClusterDeployed (clock ?w) (cluster ?w)"
    and det: "detectImageChanges (cluster ?w)"
    and ws: "writesSucceed ?w"
    and c: "lookup (cl_Annotations (cluster ?w)) AnnotationCancelUpgrade = ''true''"
    by (simp_all add: imageChangedAndCancelled_def)
  have nip: "lookup (cl_Annotations (cluster (withTrigger ?w))) AnnotationUpgradeState
      \<noteq> UpgradeStateInProgress"
    by (simp add: imageChangedAndCancelled_def)
  have "HandleUpgradeWorkflow demoHandler ?w =
      handleCancellation demoHandler (cl_Annotations (cluster (withTrigger ?w))) (withTrigger ?w)"
    using c by (simp add: HW_idle_drift [OF idle dep det ws])
  then show ?thesis
    using handleCancellation_accept [OF withTrigger_fields(2) [OF ws] nip, of demoHandler]
    by (simp add: imageChangedAndCancelled_def demoWorld_def demoCluster_def effectiveState_def)
qed

theorem image_change_triggers_prechecks_witness:
  "cl_Annotations (stored (snd (HandleUpgradeWorkflow demoHandler
      (demoWorld Map.empty ''11.4.0'' ''11.3.0'' [])))) =
     [AnnotationTriggerUpgrade \<mapsto> ''true'', AnnotationUpgradeState \<mapsto> UpgradeStatePrecheckStart] \<and>
   cl_Annotations (stored (snd (HandleUpgradeWorkflow demoHandler
      (demoWorld Map.empty ''11.4.0'' [] [])))) = Map.empty"
  using image_change_triggers_prechecks [of "demoWorld Map.empty ''11.4.0'' ''11.3.0'' []" demoHandler]
    image_change_triggers_prechecks [of "demoWorld Map.empty ''11.4.0'' [] []" demoHandler]
  by simp

subsection \<open>The writes of a transition\<close>

lemma commit_stored:
  "stored (snd (commitObjectThenStatus w)) =
     (case faults w of
        Some e # fs \<Rightarrow> stored w
      | _ \<Rightarrow> (cluster w)\<lparr>cl_Status := cl_Status (stored w)\<rparr>)"
  by (simp add: commitObjectThenStatus_def client_Update_def client_Status_Update_def
      nextFault_def Let_def split: list.splits option.splits)

lemma commit_error:
  "snd (fst (commitObjectThenStatus w)) =
     (case faults w of
        Some e # fs \<Rightarrow> Some e
      | None # Some e # fs \<Rightarrow> Some e
      | _ \<Rightarrow> None)"
  by (simp add: commitObjectThenStatus_def client_Update_def client_Status_Update_def
      nextFault_def Let_def split: list.splits option.splits)

lemma nextFault_first_ok:
  "\<forall>e fs. faults w \<noteq> Some e # fs \<Longrightarrow> nextFault w = (None, w\<lparr>faults := tl (faults w)\<rparr>)"
  by (cases "faults w") (auto simp: nextFault_def)

lemma nextFault_first_fails:
  "faults w = Some e # fs \<Longrightarrow> nextFault w = (Some e, w\<lparr>faults := fs\<rparr>)"
  by (simp add: nextFault_def)

lemma client_Update_first_ok:
  "\<forall>e fs. faults w \<noteq> Some e # fs \<Longrightarrow>
   client_Update w =
     (None, w\<lparr>faults := tl (faults w),
             stored := (cluster w)\<lparr>cl_Status := cl_Status (stored w)\<rparr>,
             cluster := (cluster w)\<lparr>cl_Status := cl_Status (stored w)\<rparr>\<rparr>)"
  by (simp add: client_Update_def nextFault_first_ok Let_def)

lemma client_Update_first_fails:
  "faults w = Some e # fs \<Longrightarrow> client_Update w = (Some e, w\<lparr>faults := fs\<rparr>)"
  by (simp add: client_Update_def nextFault_first_fails)

lemma client_Status_Update_first_ok:
  "\<forall>e fs. faults w \<noteq> Some e # fs \<Longrightarrow>
   client_Status_Update w =
     (None, w\<lparr>faults := tl (faults w),
             stored := (stored w)\<lparr>cl_Status := cl_Status (cluster w)\<rparr>,
             cluster := (stored w)\<lparr>cl_Status := cl_Status (cluster w)\<rparr>\<rparr>)"
  by (simp add: client_Status_Update_def nextFault_first_ok Let_def)

lemma client_Status_Update_first_fails:
  "faults w = Some e # fs \<Longrightarrow> client_Status_Update w = (Some e, w\<lparr>faults := fs\<rparr>)"
  by (simp add: client_Status_Update_def nextFault_first_fails)

lemma commit_first_fails:
  "faults w = Some e # fs \<Longrightarrow>
   commitObjectThenStatus w = ((NoRequeue, Some e), w\<lparr>faults := fs\<rparr>)"
  by (simp add: commitObjectThenStatus_def client_Update_first_fails)

lemma update_first_fails:
  "faults w = Some e # fs \<Longrightarrow>
   stored (snd (updateUpgradeStateWithResults h s r w)) = stored w \<and>
   snd (fst (updateUpgradeStateWithResults h s r w)) = Some e"
  by (simp add: updateUpgradeStateWithResults_def commit_first_fails)

lemma cleanup_first_fails:
  "faults w = Some e # fs \<Longrightarrow>
   stored (snd (cleanupUpgradeAnnotations s w)) = stored w \<and>
   snd (fst (cleanupUpgradeAnnotations s w)) = Some e"
  by (simp add: cleanupUpgradeAnnotations_def commit_first_fails)

lemma update_annotations:
  "cl_Annotations (stored (snd (updateUpgradeStateWithResults h s r w))) =
     (case faults w of
        Some e # fs \<Rightarrow> cl_Annotations (stored w)
      | _ \<Rightarrow> cl_Annotations (cluster (stageUpgradeState h s r w)))"
  by (simp add: updateUpgradeStateWithResults_def commit_stored split: list.splits option.splits)

lemma cleanup_annotations:
  "cl_Annotations (stored (snd (cleanupUpgradeAnnotations s w))) =
     (case faults w of
        Some e # fs \<Rightarrow> cl_Annotations (stored w)
      | _ \<Rightarrow> cl_Annotations (cluster (stageCleanup s w)))"
  by (simp add: cleanupUpgradeAnnotations_def commit_stored split: list.splits option.splits)

lemma commit_status:
  "cl_Status (stored (snd (commitObjectThenStatus w))) = cl_Status (stored w)"
  by (simp add: commit_stored split: list.splits option.splits)

lemma update_error:
  "snd (fst (updateUpgradeStateWithResults h s r w)) =
     (case faults w of
        Some e # fs \<Rightarrow> Some e
      | None # Some e # fs \<Rightarrow> Some e
      | _ \<Rightarrow> None)"
  by (simp add: updateUpgradeStateWithResults_def commit_error split: list.splits option.splits)

lemma cleanup_error:
  "snd (fst (cleanupUpgradeAnnotations s w)) =
     (case faults w of
        Some e # fs \<Rightarrow> Some e
      | None # Some e # fs \<Rightarrow> Some e
      | _ \<Rightarrow> None)"
  by (simp add: cleanupUpgradeAnnotations_def commit_error split: list.splits option.splits)

lemma StartPrechecks_fields [simp]:
  "fst (StartPrechecks w) = None"
  "faults (snd (StartPrechecks w)) = faults w"
  "stored (snd (StartPrechecks w)) = stored w"
  "cluster (snd (StartPrechecks w)) = cluster w"
  by (simp_all add: StartPrechecks_def)

lemma CheckUpgradeStatus_fields [simp]:
  "faults (snd (CheckUpgradeStatus w)) = faults w"
  "stored (snd (CheckUpgradeStatus w)) = stored w"
  "cluster (snd (CheckUpgradeStatus w)) = cluster w"
  by (simp_all add: CheckUpgradeStatus_def checkUpgradeProgress_eq performClusterHealthCheck_def)

lemma handleIdle_first_fails:
  "faults w = Some e # fs \<Longrightarrow> stored (snd (handleIdleState h a w)) = stored w"
  by (simp add: handleIdleState_def StartPrechecks_def updateUpgradeState_def update_first_fails)

lemma handlePrecheckStart_first_fails:
  "faults w = Some e # fs \<Longrightarrow> stored (snd (handlePrecheckStartState h a w)) = stored w"
  by (simp add: handlePrecheckStartState_def CheckPrecheckStatus_def update_first_fails)

lemma handlePrecheckDone_first_fails:
  "faults w = Some e # fs \<Longrightarrow> stored (snd (handlePrecheckDoneState h a w)) = stored w"
  by (simp add: handlePrecheckDoneState_def updateUpgradeState_def update_first_fails)

lemma handleWaiting_first_fails:
  "faults w = Some e # fs \<Longrightarrow> stored (snd (handleWaitingUserState h a w)) = stored w"
proof (cases "lookup a AnnotationProceedUpgrade = ''true''")
  case True
  assume "faults w = Some e # fs"
  then show ?thesis
    by (simp add: handleWaiting_proceed_eq [OF True] updateUpgradeState_def update_first_fails)
next
  case False
  then show ?thesis by (simp add: handleWaitingUserState_def)
qed

lemma handleCancellation_first_fails:
  "faults w = Some e # fs \<Longrightarrow> stored (snd (handleCancellation h a w)) = stored w"
  by (simp add: handleCancellation_def Let_def cleanup_first_fails)

lemma dispatch_first_fails:
  "faults w = Some e # fs \<Longrightarrow>
   \<not> (s = UpgradeStateInProgress \<and>
      list_all (groupConverged w) (spec_MarkLogicGroups (cluster w))) \<Longrightarrow>
   stored (snd (dispatch h s a w)) = stored w"
  by (auto simp: dispatch_def handleIdle_first_fails handlePrecheckStart_first_fails
      handlePrecheckDone_first_fails handleWaiting_first_fails handleInProgress_waiting
      cleanup_first_fails updateUpgradeState_def update_first_fails)

lemma HW_first_write_fails:
  assumes f: "faults w = Some e # fs"
    and nc: "\<not> (lookup (cl_Annotations (cluster w)) AnnotationUpgradeState = UpgradeStateInProgress \<and>
               lookup (cl_Annotations (cluster w)) AnnotationCancelUpgrade \<noteq> ''true'' \<and>
               list_all (groupConverged w) (spec_MarkLogicGroups (cluster w)))"
  shows "stored (snd (HandleUpgradeWorkflow h w)) = stored w"
proof (cases "effectiveState (cluster w) = UpgradeStateIdle")
  case False
  then have ne: "lookup (cl_Annotations (cluster w)) AnnotationUpgradeState \<noteq> []"
    "lookup (cl_Annotations (cluster w)) AnnotationUpgradeState \<noteq> UpgradeStateIdle"
    by (auto simp: effectiveState_def split: if_splits)
  show ?thesis
    using f nc
    by (auto simp: HW_not_idle [OF False] handleCancellation_first_fails dispatch_first_fails)
next
  case idle: True
  show ?thesis
  proof (cases "isClusterDeployed (clock w) (cluster w)")
    case False
    then show ?thesis
      using idle f
      by (auto simp: HandleUpgradeWorkflow_def effectiveState_def Let_def
          updateStatusAfterDeployment_def client_Status_Update_first_fails setCurrentImage_def
          split: if_splits)
  next
    case dep: True
    show ?thesis
    proof (cases "detectImageChanges (cluster w)")
      case True
      then show ?thesis
        using idle dep f
        by (auto simp: HandleUpgradeWorkflow_def effectiveState_def Let_def autoTrigger_def
            client_Update_first_fails split: if_splits)
    next
      case nd: False
      show ?thesis
      proof (cases "lookup (cl_Annotations (cluster w)) AnnotationTriggerUpgrade = ''true''")
        case True
        then show ?thesis
          using f
          by (simp add: HW_idle_triggered [OF idle dep nd] handleCancellation_first_fails
              handleIdle_first_fails)
      next
        case False
        then show ?thesis by (simp add: HW_idle_quiet [OF idle dep nd])
      qed
    qed
  qed
qed

lemma HW_idle_drift_first_ok:
  "effectiveState (cluster w) = UpgradeStateIdle \<Longrightarrow>
   isClusterDeployed (clock w) (cluster w) \<Longrightarrow>
   detectImageChanges (cluster w) \<Longrightarrow>
   \<forall>e fs. faults w \<noteq> Some e # fs \<Longrightarrow>
   HandleUpgradeWorkflow h w =
     (if lookup (cl_Annotations (cluster w)) AnnotationCancelUpgrade = ''true''
      then handleCancellation h (cl_Annotations (cluster (withTrigger w))) (withTrigger w)
      else handleIdleState h (cl_Annotations (cluster (withTrigger w))) (withTrigger w))"
  by (auto simp: HandleUpgradeWorkflow_def effectiveState_def Let_def autoTrigger_def dispatch_def
      client_Update_first_ok withTrigger_def
      split: if_splits)

lemma HW_idle_drift_first_fails:
  "effectiveState (cluster w) = UpgradeStateIdle \<Longrightarrow>
   isClusterDeployed (clock w) (cluster w) \<Longrightarrow>
   detectImageChanges (cluster w) \<Longrightarrow>
   faults w = Some e # fs \<Longrightarrow>
   fst (HandleUpgradeWorkflow h w) = (NoRequeue, Some e)"
  by (auto simp: HandleUpgradeWorkflow_def effectiveState_def Let_def autoTrigger_def
      client_Update_first_fails split: if_splits)

lemma withTrigger_more [simp]:
  "faults (withTrigger w) = tl (faults w)"
  "cl_Annotations (stored (withTrigger w)) =
     (cl_Annotations (cluster w))(AnnotationTriggerUpgrade \<mapsto> ''true'')"
  by (simp_all add: withTrigger_def Let_def)

lemma handleIdle_triggered_eq:
  "lookup a AnnotationTriggerUpgrade = ''true'' \<Longrightarrow>
   handleIdleState h a w =
     updateUpgradeStateWithResults h UpgradeStatePrecheckStart None
       (Recorder_Event EventTypeNormal ''PrecheckStarted'' ''Upgrade prechecks started''
          (snd (StartPrechecks w)))"
  by (simp add: handleIdleState_def StartPrechecks_def updateUpgradeState_def)

lemma handleCancellation_accept_eq:
  "lookup a AnnotationUpgradeState \<noteq> UpgradeStateInProgress \<Longrightarrow>
   handleCancellation h a w =
     cleanupUpgradeAnnotations UpgradeStateCancelled
       (Recorder_Event EventTypeNormal ''UpgradeCancelled'' ''Upgrade cancelled by user'' w)"
  by (simp add: handleCancellation_def Let_def)

lemma image_change_writes:
  assumes idle: "effectiveState (cluster w) = UpgradeStateIdle"
    and ci: "CurrentImage (cl_Status (cluster w)) \<noteq> []"
    and df: "CurrentImage (cl_Status (cluster w)) \<noteq> spec_Image (cluster w)"
  shows "cl_Annotations (stored (snd (HandleUpgradeWorkflow h w))) =
     (case faults w of
        Some e # fs \<Rightarrow> cl_Annotations (stored w)
      | None # Some e # fs \<Rightarrow>
          (cl_Annotations (cluster w))(AnnotationTriggerUpgrade \<mapsto> ''true'')
      | _ \<Rightarrow>
          if lookup (cl_Annotations (cluster w)) AnnotationCancelUpgrade = ''true''
          then (cl_Annotations (cluster w))
                 (AnnotationUpgradeState \<mapsto> UpgradeStateCancelled,
                  AnnotationTriggerUpgrade := None, AnnotationProceedUpgrade := None,
                  AnnotationCancelUpgrade := None)
          else (cl_Annotations (cluster w))
                 (AnnotationTriggerUpgrade \<mapsto> ''true'',
                  AnnotationUpgradeState \<mapsto> UpgradeStatePrecheckStart))"
    and "snd (fst (HandleUpgradeWorkflow h w)) =
     (case faults w of
        Some e # fs \<Rightarrow> Some e
      | None # Some e # fs \<Rightarrow> Some e
      | None # None # Some e # fs \<Rightarrow> Some e
      | _ \<Rightarrow> None)"
proof -
  have dep: "isClusterDeployed (clock w) (cluster w)"
    and det: "detectImageChanges (cluster w)"
    using ci df by (simp_all add: isClusterDeployed_def detectImageChanges_def Let_def)
  have nip: "lookup (cl_Annotations (cluster w)) AnnotationUpgradeState \<noteq> UpgradeStateInProgress"
    using idle by (auto simp: effectiveState_def split: if_splits)
  show "cl_Annotations (stored (snd (HandleUpgradeWorkflow h w))) =
     (case faults w of
        Some e # fs \<Rightarrow> cl_Annotations (stored w)
      | None # Some e # fs \<Rightarrow>
          (cl_Annotations (cluster w))(AnnotationTriggerUpgrade \<mapsto> ''true'')
      | _ \<Rightarrow>
          if lookup (cl_Annotations (cluster w)) AnnotationCancelUpgrade = ''true''
          then (cl_Annotations (cluster w))
                 (AnnotationUpgradeState \<mapsto> UpgradeStateCancelled,
                  AnnotationTriggerUpgrade := None, AnnotationProceedUpgrade := None,
                  AnnotationCancelUpgrade := None)
          else (cl_Annotations (cluster w))
                 (AnnotationTriggerUpgrade \<mapsto> ''true'',
                  AnnotationUpgradeState \<mapsto> UpgradeStatePrecheckStart))"
  proof (cases "\<exists>e fs. faults w = Some e # fs")
    case True
    then obtain e fs where f: "faults w = Some e # fs" by blast
    have "stored (snd (HandleUpgradeWorkflow h w)) = stored w"
      using idle by (intro HW_first_write_fails [OF f]) (auto simp: effectiveState_def split: if_splits)
    then show ?thesis by (simp add: f)
  next
    case False
    then have ok: "\<forall>e fs. faults w \<noteq> Some e # fs" by blast
    show ?thesis
      unfolding HW_idle_drift_first_ok [OF idle dep det ok]
      using ok nip
      by (auto simp: handleCancellation_accept_eq handleIdle_triggered_eq
          cleanup_annotations update_annotations stageCleanup_annotations
          stageUpgradeState_annotations_None cancel_accept_annotations
          split: list.splits option.splits)
  qed
  show "snd (fst (HandleUpgradeWorkflow h w)) =
     (case faults w of
        Some e # fs \<Rightarrow> Some e
      | None # Some e # fs \<Rightarrow> Some e
      | None # None # Some e # fs \<Rightarrow> Some e
      | _ \<Rightarrow> None)"
  proof (cases "\<exists>e fs. faults w = Some e # fs")
    case True
    then obtain e fs where f: "faults w = Some e # fs" by blast
    show ?thesis
      using HW_idle_drift_first_fails [OF idle dep det f, of h] by (simp add: f)
  next
    case False
    then have ok: "\<forall>e fs. faults w \<noteq> Some e # fs" by blast
    show ?thesis
      unfolding HW_idle_drift_first_ok [OF idle dep det ok]
      using ok nip
      by (auto simp: handleCancellation_accept_eq handleIdle_triggered_eq
          cleanup_error update_error
          split: list.splits option.splits)
  qed
qed

lemma handleInProgress_done_eq:
  "list_all (groupConverged w) (spec_MarkLogicGroups (cluster w)) \<Longrightarrow>
   handleInProgressState h a w =
     cleanupUpgradeAnnotations UpgradeStateCompleted
       (snd (updateCurrentImages
               (Recorder_Event EventTypeNormal ''UpgradeCompleted''
                  ''Rolling upgrade completed successfully'' (snd (CheckUpgradeStatus w)))))"
  by (simp add: handleInProgressState_def CheckUpgradeStatus_def checkUpgradeProgress_eq
      split: prod.splits)

lemma updateCurrentImages_fields:
  "faults (snd (updateCurrentImages w)) = tl (faults w)"
  "cl_Annotations (stored (snd (updateCurrentImages w))) = cl_Annotations (stored w)"
  "stored w = cluster w \<Longrightarrow>
     cl_Annotations (cluster (snd (updateCurrentImages w))) = cl_Annotations (stored w)"
  "CurrentImage (cl_Status (stored (snd (updateCurrentImages w)))) =
     (case faults w of
        Some e # fs \<Rightarrow> CurrentImage (cl_Status (stored w))
      | _ \<Rightarrow> spec_Image (cluster w))"
  by (auto simp: updateCurrentImages_def client_Status_Update_def nextFault_def setCurrentImage_def
      Let_def split: list.splits option.splits)

lemma cleanup_status:
  "cl_Status (stored (snd (cleanupUpgradeAnnotations s w))) = cl_Status (stored w)"
  by (simp add: cleanupUpgradeAnnotations_def commit_status)

lemma update_status:
  "cl_Status (stored (snd (updateUpgradeStateWithResults h s r w))) = cl_Status (stored w)"
  by (simp add: updateUpgradeStateWithResults_def commit_status)

lemma completion_writes:
  assumes ip: "lookup (cl_Annotations (cluster w)) AnnotationUpgradeState = UpgradeStateInProgress"
    and nc: "lookup (cl_Annotations (cluster w)) AnnotationCancelUpgrade \<noteq> ''true''"
    and conv: "list_all (groupConverged w) (spec_MarkLogicGroups (cluster w))"
    and fresh: "stored w = cluster w"
  shows "CurrentImage (cl_Status (stored (snd (HandleUpgradeWorkflow h w)))) =
     (case faults w of
        Some e # fs \<Rightarrow> CurrentImage (cl_Status (stored w))
      | _ \<Rightarrow> spec_Image (stored w))"
    and "cl_Annotations (stored (snd (HandleUpgradeWorkflow h w))) =
     (case tl (faults w) of
        Some e # fs \<Rightarrow> cl_Annotations (stored w)
      | _ \<Rightarrow>
          (cl_Annotations (stored w))
            (AnnotationUpgradeState \<mapsto> UpgradeStateCompleted, AnnotationTriggerUpgrade := None,
             AnnotationProceedUpgrade := None, AnnotationCancelUpgrade := None))"
    and "snd (fst (HandleUpgradeWorkflow h w)) =
     (case tl (faults w) of
        Some e # fs \<Rightarrow> Some e
      | None # Some e # fs \<Rightarrow> Some e
      | _ \<Rightarrow> None)"
proof -
  let ?w3 = "Recorder_Event EventTypeNormal ''UpgradeCompleted''
                  ''Rolling upgrade completed successfully'' (snd (CheckUpgradeStatus w))"
  let ?w4 = "snd (updateCurrentImages ?w3)"
  have hw: "HandleUpgradeWorkflow h w = cleanupUpgradeAnnotations UpgradeStateCompleted ?w4"
    using ip nc by (simp add: HW_not_idle' dispatch_def handleInProgress_done_eq [OF conv])
  have w3: "faults ?w3 = faults w" "stored ?w3 = stored w" "cluster ?w3 = cluster w"
    by simp_all
  have f4: "faults ?w4 = tl (faults w)"
    using updateCurrentImages_fields(1) [of ?w3] by (simp add: w3)
  have a4: "cl_Annotations (stored ?w4) = cl_Annotations (stored w)"
    using updateCurrentImages_fields(2) [of ?w3] by (simp add: w3)
  have c4: "cl_Annotations (cluster ?w4) = cl_Annotations (stored w)"
    using updateCurrentImages_fields(3) [of ?w3] fresh by (simp add: w3)
  have i4: "CurrentImage (cl_Status (stored ?w4)) =
      (case faults w of Some e # fs \<Rightarrow> CurrentImage (cl_Status (stored w))
       | _ \<Rightarrow> spec_Image (stored w))"
    using updateCurrentImages_fields(4) [of ?w3] fresh
    by (simp add: w3 split: list.splits option.splits)
  show "CurrentImage (cl_Status (stored (snd (HandleUpgradeWorkflow h w)))) =
     (case faults w of
        Some e # fs \<Rightarrow> CurrentImage (cl_Status (stored w))
      | _ \<Rightarrow> spec_Image (stored w))"
    unfolding hw cleanup_status by (rule i4)
  show "cl_Annotations (stored (snd (HandleUpgradeWorkflow h w))) =
     (case tl (faults w) of
        Some e # fs \<Rightarrow> cl_Annotations (stored w)
      | _ \<Rightarrow>
          (cl_Annotations (stored w))
            (AnnotationUpgradeState \<mapsto> UpgradeStateCompleted, AnnotationTriggerUpgrade := None,
             AnnotationProceedUpgrade := None, AnnotationCancelUpgrade := None))"
    unfolding hw cleanup_annotations f4
    by (simp add: stageCleanup_annotations a4 c4 split: list.splits option.splits)
  show "snd (fst (HandleUpgradeWorkflow h w)) =
     (case tl (faults w) of
        Some e # fs \<Rightarrow> Some e
      | None # Some e # fs \<Rightarrow> Some e
      | _ \<Rightarrow> None)"
    unfolding hw cleanup_error f4 by simp
qed

text \<open>
  Claim C3, as amended. A transition is not committed by one atomic write. The two
  helpers that persist it issue the object write, which carries the new state annotation
  and the report (when one was produced and could be serialized), and then a separate
  status write. If the object write fails, the helper commits nothing and returns the
  error; if it succeeds, the new annotations are committed whether or not the status
  write then fails, and a failing status write is returned as an error with the stored
  status as it was. At the level of an invocation: when the first write of the invocation
  fails the store is unchanged (but for a completing rollout, whose first write records
  the current image and whose error is ignored); after an image change the trigger
  annotation is written first and stays stored when the next write fails; on completion
  the current image is recorded first and stays stored when a later write fails.
\<close>

theorem transition_writes_object_then_status:
  "cl_Annotations (stored (snd (updateUpgradeStateWithResults h s r w))) =
     (case faults w of
        Some e # fs \<Rightarrow> cl_Annotations (stored w)
      | _ \<Rightarrow> cl_Annotations (cluster (stageUpgradeState h s r w))) \<and>
   snd (fst (updateUpgradeStateWithResults h s r w)) =
     (case faults w of
        Some e # fs \<Rightarrow> Some e
      | None # Some e # fs \<Rightarrow> Some e
      | _ \<Rightarrow> None) \<and>
   (case faults w of
      Some e # fs \<Rightarrow> stored (snd (updateUpgradeStateWithResults h s r w)) = stored w
    | None # Some e # fs \<Rightarrow>
        cl_Status (stored (snd (updateUpgradeStateWithResults h s r w))) = cl_Status (stored w)
    | _ \<Rightarrow> True) \<and>
   cl_Annotations (stored (snd (cleanupUpgradeAnnotations s w))) =
     (case faults w of
        Some e # fs \<Rightarrow> cl_Annotations (stored w)
      | _ \<Rightarrow> cl_Annotations (cluster (stageCleanup s w))) \<and>
   snd (fst (cleanupUpgradeAnnotations s w)) =
     (case faults w of
        Some e # fs \<Rightarrow> Some e
      | None # Some e # fs \<Rightarrow> Some e
      | _ \<Rightarrow> None) \<and>
   (case faults w of
      Some e # fs \<Rightarrow> stored (snd (cleanupUpgradeAnnotations s w)) = stored w
    | None # Some e # fs \<Rightarrow>
        cl_Status (stored (snd (cleanupUpgradeAnnotations s w))) = cl_Status (stored w)
    | _ \<Rightarrow> True) \<and>
   cl_Annotations (cluster (stageUpgradeState h s r w)) AnnotationUpgradeState = Some s \<and>
   cl_Annotations (cluster (stageUpgradeState h s (Some report) w)) AnnotationPrecheckResults =
     (case ToJSON h report of
        Inl err \<Rightarrow> cl_Annotations (cluster w) AnnotationPrecheckResults
      | Inr resultsJson \<Rightarrow> Some resultsJson) \<and>
   cl_Annotations (cluster (stageCleanup s w)) AnnotationUpgradeState = Some s \<and>
   (faults w = Some e # fs \<and>
    \<not> (lookup (cl_Annotations (cluster w)) AnnotationUpgradeState = UpgradeStateInProgress \<and>
       lookup (cl_Annotations (cluster w)) AnnotationCancelUpgrade \<noteq> ''true'' \<and>
       list_all (groupConverged w) (spec_MarkLogicGroups (cluster w))) \<longrightarrow>
      stored (snd (HandleUpgradeWorkflow h w)) = stored w) \<and>
   (effectiveState (cluster w) = UpgradeStateIdle \<and>
    CurrentImage (cl_Status (cluster w)) \<noteq> [] \<and>
    CurrentImage (cl_Status (cluster w)) \<noteq> spec_Image (cluster w) \<longrightarrow>
      cl_Annotations (stored (snd (HandleUpgradeWorkflow h w))) =
        (case faults w of
           Some e # fs \<Rightarrow> cl_Annotations (stored w)
         | None # Some e # fs \<Rightarrow>
             (cl_Annotations (cluster w))(AnnotationTriggerUpgrade \<mapsto> ''true'')
         | _ \<Rightarrow>
             if lookup (cl_Annotations (cluster w)) AnnotationCancelUpgrade = ''true''
             then (cl_Annotations (cluster w))
                    (AnnotationUpgradeState \<mapsto> UpgradeStateCancelled,
                     AnnotationTriggerUpgrade := None, AnnotationProceedUpgrade := None,
                     AnnotationCancelUpgrade := None)
             else (cl_Annotations (cluster w))
                    (AnnotationTriggerUpgrade \<mapsto> ''true'',
                     AnnotationUpgradeState \<mapsto> UpgradeStatePrecheckStart)) \<and>
      snd (fst (HandleUpgradeWorkflow h w)) =
        (case faults w of
           Some e # fs \<Rightarrow> Some e
         | None # Some e # fs \<Rightarrow> Some e
         | None # None # Some e # fs \<Rightarrow> Some e
         | _ \<Rightarrow> None)) \<and>
   (lookup (cl_Annotations (cluster w)) AnnotationUpgradeState = UpgradeStateInProgress \<and>
    lookup (cl_Annotations (cluster w)) AnnotationCancelUpgrade \<noteq> ''true'' \<and>
    list_all (groupConverged w) (spec_MarkLogicGroups (cluster w)) \<and>
    stored w = cluster w \<longrightarrow>
      CurrentImage (cl_Status (stored (snd (HandleUpgradeWorkflow h w)))) =
        (case faults w of
           Some e # fs \<Rightarrow> CurrentImage (cl_Status (stored w))
         | _ \<Rightarrow> spec_Image (stored w)) \<and>
      cl_Annotations (stored (snd (HandleUpgradeWorkflow h w))) =
        (case tl (faults w) of
           Some e # fs \<Rightarrow> cl_Annotations (stored w)
         | _ \<Rightarrow>
             (cl_Annotations (stored w))
               (AnnotationUpgradeState \<mapsto> UpgradeStateCompleted,
                AnnotationTriggerUpgrade := None, AnnotationProceedUpgrade := None,
                AnnotationCancelUpgrade := None)) \<and>
      snd (fst (HandleUpgradeWorkflow h w)) =
        (case tl (faults w) of
           Some e # fs \<Rightarrow> Some e
         | None # Some e # fs \<Rightarrow> Some e
         | _ \<Rightarrow> None))"
proof (intro conjI)
  show "cl_Annotations (stored (snd (updateUpgradeStateWithResults h s r w))) =
     (case faults w of
        Some e # fs \<Rightarrow> cl_Annotations (stored w)
      | _ \<Rightarrow> cl_Annotations (cluster (stageUpgradeState h s r w)))"
    by (rule update_annotations)
  show "snd (fst (updateUpgradeStateWithResults h s r w)) =
     (case faults w of
        Some e # fs \<Rightarrow> Some e
      | None # Some e # fs \<Rightarrow> Some e
      | _ \<Rightarrow> None)"
    by (rule update_error)
  show "case faults w of
      Some e # fs \<Rightarrow> stored (snd (updateUpgradeStateWithResults h s r w)) = stored w
    | None # Some e # fs \<Rightarrow>
        cl_Status (stored (snd (updateUpgradeStateWithResults h s r w))) = cl_Status (stored w)
    | _ \<Rightarrow> True"
    by (simp add: update_first_fails update_status split: list.splits option.splits)
  show "cl_Annotations (stored (snd (cleanupUpgradeAnnotations s w))) =
     (case faults w of
        Some e # fs \<Rightarrow> cl_Annotations (stored w)
      | _ \<Rightarrow> cl_Annotations (cluster (stageCleanup s w)))"
    by (rule cleanup_annotations)
  show "snd (fst (cleanupUpgradeAnnotations s w)) =
     (case faults w of
        Some e # fs \<Rightarrow> Some e
      | None # Some e # fs \<Rightarrow> Some e
      | _ \<Rightarrow> None)"
    by (rule cleanup_error)
  show "case faults w of
      Some e # fs \<Rightarrow> stored (snd (cleanupUpgradeAnnotations s w)) = stored w
    | None # Some e # fs \<Rightarrow>
        cl_Status (stored (snd (cleanupUpgradeAnnotations s w))) = cl_Status (stored w)
    | _ \<Rightarrow> True"
    by (simp add: cleanup_first_fails cleanup_status split: list.splits option.splits)
  show "cl_Annotations (cluster (stageUpgradeState h s r w)) AnnotationUpgradeState = Some s"
    by (simp add: stageUpgradeState_def Let_def split: option.splits sum.splits)
  show "cl_Annotations (cluster (stageUpgradeState h s (Some report) w)) AnnotationPrecheckResults =
     (case ToJSON h report of
        Inl err \<Rightarrow> cl_Annotations (cluster w) AnnotationPrecheckResults
      | Inr resultsJson \<Rightarrow> Some resultsJson)"
    by (simp add: stageUpgradeState_def Let_def split: sum.splits)
  show "cl_Annotations (cluster (stageCleanup s w)) AnnotationUpgradeState = Some s"
    by (simp add: stageCleanup_def Let_def)
  show "faults w = Some e # fs \<and>
    \<not> (lookup (cl_Annotations (cluster w)) AnnotationUpgradeState = UpgradeStateInProgress \<and>
       lookup (cl_Annotations (cluster w)) AnnotationCancelUpgrade \<noteq> ''true'' \<and>
       list_all (groupConverged w) (spec_MarkLogicGroups (cluster w))) \<longrightarrow>
      stored (snd (HandleUpgradeWorkflow h w)) = stored w"
    using HW_first_write_fails [of w e fs h] by blast
  show "effectiveState (cluster w) = UpgradeStateIdle \<and>
    CurrentImage (cl_Status (cluster w)) \<noteq> [] \<and>
    CurrentImage (cl_Status (cluster w)) \<noteq> spec_Image (cluster w) \<longrightarrow>
      cl_Annotations (stored (snd (HandleUpgradeWorkflow h w))) =
        (case faults w of
           Some e # fs \<Rightarrow> cl_Annotations (stored w)
         | None # Some e # fs \<Rightarrow>
             (cl_Annotations (cluster w))(AnnotationTriggerUpgrade \<mapsto> ''true'')
         | _ \<Rightarrow>
             if lookup (cl_Annotations (cluster w)) AnnotationCancelUpgrade = ''true''
             then (cl_Annotations (cluster w))
                    (AnnotationUpgradeState \<mapsto> UpgradeStateCancelled,
                     AnnotationTriggerUpgrade := None, AnnotationProceedUpgrade := None,
                     AnnotationCancelUpgrade := None)
             else (cl_Annotations (cluster w))
                    (AnnotationTriggerUpgrade \<mapsto> ''true'',
                     AnnotationUpgradeState \<mapsto> UpgradeStatePrecheckStart)) \<and>
      snd (fst (HandleUpgradeWorkflow h w)) =
        (case faults w of
           Some e # fs \<Rightarrow> Some e
         | None # Some e # fs \<Rightarrow> Some e
         | None # None # Some e # fs \<Rightarrow> Some e
         | _ \<Rightarrow> None)"
    using image_change_writes [of w h] by blast
  show "lookup (cl_Annotations (cluster w)) AnnotationUpgradeState = UpgradeStateInProgress \<and>
    lookup (cl_Annotations (cluster w)) AnnotationCancelUpgrade \<noteq> ''true'' \<and>
    list_all (groupConverged w) (spec_MarkLogicGroups (cluster w)) \<and>
    stored w = cluster w \<longrightarrow>
      CurrentImage (cl_Status (stored (snd (HandleUpgradeWorkflow h w)))) =
        (case faults w of
           Some e # fs \<Rightarrow> CurrentImage (cl_Status (stored w))
         | _ \<Rightarrow> spec_Image (stored w)) \<and>
      cl_Annotations (stored (snd (HandleUpgradeWorkflow h w))) =
        (case tl (faults w) of
           Some e # fs \<Rightarrow> cl_Annotations (stored w)
         | _ \<Rightarrow>
             (cl_Annotations (stored w))
               (AnnotationUpgradeState \<mapsto> UpgradeStateCompleted,
                AnnotationTriggerUpgrade := None, AnnotationProceedUpgrade := None,
                AnnotationCancelUpgrade := None)) \<and>
      snd (fst (HandleUpgradeWorkflow h w)) =
        (case tl (faults w) of
           Some e # fs \<Rightarrow> Some e
         | None # Some e # fs \<Rightarrow> Some e
         | _ \<Rightarrow> None)"
    using completion_writes [of w h] by blast
qed

text \<open>
  The claim as stated fails: when the object write succeeds and the status write fails,
  the invocation returns the error and leaves a store that holds the new state
  annotation with the old status and no condition.
\<close>

theorem state_committed_without_status:
  "snd (fst (HandleUpgradeWorkflow demoHandler statusWriteFails)) = Some ''conflict'' \<and>
   lookup (cl_Annotations (stored statusWriteFails)) AnnotationUpgradeState =
     UpgradeStatePrecheckDone \<and>
   lookup (cl_Annotations (stored (snd (HandleUpgradeWorkflow demoHandler statusWriteFails))))
     AnnotationUpgradeState = UpgradeStateWaitingUser \<and>
   cl_Status (stored (snd (HandleUpgradeWorkflow demoHandler statusWriteFails))) =
     cl_Status (stored statusWriteFails) \<and>
   Conditions (cl_Status (stored (snd (HandleUpgradeWorkflow demoHandler statusWriteFails)))) = [] \<and>
   stored (snd (HandleUpgradeWorkflow demoHandler statusWriteFails)) \<noteq> stored statusWriteFails"
proof -
  let ?w = statusWriteFails
  let ?e = "Recorder_Event EventTypeNormal ''AwaitingApproval''
          (''Prechecks completed. Review results and set annotation '' @ AnnotationProceedUpgrade @
           ''=true to proceed or '' @ AnnotationCancelUpgrade @ ''=true to cancel'') ?w"
  have hw: "HandleUpgradeWorkflow demoHandler ?w =
      commitObjectThenStatus (stageUpgradeState demoHandler UpgradeStateWaitingUser None ?e)"
    by (simp add: HW_not_idle' statusWriteFails_def dispatch_def handlePrecheckDoneState_def
        updateUpgradeState_def updateUpgradeStateWithResults_def)
  have st: "stored (snd (HandleUpgradeWorkflow demoHandler ?w)) =
      (cluster (stageUpgradeState demoHandler UpgradeStateWaitingUser None ?e))
        \<lparr>cl_Status := cl_Status (stored ?w)\<rparr>"
    unfolding hw commit_stored by (simp add: statusWriteFails_def split: list.splits option.splits)
  have er: "snd (fst (HandleUpgradeWorkflow demoHandler ?w)) = Some ''conflict''"
    unfolding hw commit_error by (simp add: statusWriteFails_def split: list.splits option.splits)
  have an: "lookup (cl_Annotations (stored (snd (HandleUpgradeWorkflow demoHandler ?w))))
     AnnotationUpgradeState = UpgradeStateWaitingUser"
    unfolding st by (simp add: stageUpgradeState_annotations_None)
  have ne: "stored (snd (HandleUpgradeWorkflow demoHandler ?w)) \<noteq> stored ?w"
    using an by (auto simp: statusWriteFails_def)
  show ?thesis
    using er an ne by (simp add: st) (simp add: statusWriteFails_def demoWorld_def demoCluster_def)
qed

lemma convergedThenConflict_fields [simp]:
  "cl_Annotations (cluster convergedThenConflict) =
     [AnnotationUpgradeState \<mapsto> UpgradeStateInProgress]"
  "stored convergedThenConflict = cluster convergedThenConflict"
  "faults convergedThenConflict = [None, Some ''conflict'']"
  "spec_Image (cluster convergedThenConflict) = ''11.4.0''"
  "list_all (groupConverged convergedThenConflict)
     (spec_MarkLogicGroups (cluster convergedThenConflict))"
  by (simp_all add: convergedThenConflict_def demoWorld_def demoCluster_def groupConverged_def)

theorem transition_writes_object_then_status_witness:
  "stored (snd (HandleUpgradeWorkflow demoHandler objectWriteFails)) = stored objectWriteFails \<and>
   cl_Annotations (stored (snd (HandleUpgradeWorkflow demoHandler triggerWrittenThenConflict))) =
     [AnnotationTriggerUpgrade \<mapsto> ''true''] \<and>
   snd (fst (HandleUpgradeWorkflow demoHandler triggerWrittenThenConflict)) = Some ''conflict'' \<and>
   CurrentImage (cl_Status (stored (snd (HandleUpgradeWorkflow demoHandler convergedThenConflict)))) =
     ''11.4.0'' \<and>
   cl_Annotations (stored (snd (HandleUpgradeWorkflow demoHandler convergedThenConflict))) =
     [AnnotationUpgradeState \<mapsto> UpgradeStateInProgress] \<and>
   snd (fst (HandleUpgradeWorkflow demoHandler convergedThenConflict)) = Some ''conflict''"
  using transition_writes_object_then_status [where w = objectWriteFails and h = demoHandler and e = "''conflict''" and fs = "[]"]
    transition_writes_object_then_status [where w = triggerWrittenThenConflict and h = demoHandler]
    transition_writes_object_then_status [where w = convergedThenConflict and h = demoHandler]
  by (simp add: objectWriteFails_def triggerWrittenThenConflict_def)

end
